theory Spec2Isabelle
  imports Complex_Main "HOL-Library.Sublist"
begin

section \<open>JavaScript numbers and values\<close>

text \<open>
  A JavaScript number is an IEEE double. The model keeps the three special values apart
  and takes a finite double as the real number it denotes: comparisons are exact, as they
  are on doubles, while the rounding and the overflow of arithmetic on finite values and
  the sign of zero are not represented.
\<close>

datatype jsnum = NaN | PInf | NInf | Fin real

fun isNaN :: "jsnum \<Rightarrow> bool" where
  "isNaN NaN = True"
| "isNaN _ = False"

text \<open>The relational operators \<open><\<close>, \<open>>\<close>, \<open><=\<close>, \<open>>=\<close>: false as soon as one side is NaN.\<close>

fun num_lt :: "jsnum \<Rightarrow> jsnum \<Rightarrow> bool" where
  "num_lt NaN _ = False"
| "num_lt _ NaN = False"
| "num_lt _ NInf = False"
| "num_lt PInf _ = False"
| "num_lt NInf _ = True"
| "num_lt (Fin x) PInf = True"
| "num_lt (Fin x) (Fin y) = (x < y)"

definition num_gt :: "jsnum \<Rightarrow> jsnum \<Rightarrow> bool" where
  "num_gt a b = num_lt b a"

fun num_le :: "jsnum \<Rightarrow> jsnum \<Rightarrow> bool" where
  "num_le NaN _ = False"
| "num_le _ NaN = False"
| "num_le NInf _ = True"
| "num_le _ PInf = True"
| "num_le PInf _ = False"
| "num_le (Fin x) NInf = False"
| "num_le (Fin x) (Fin y) = (x \<le> y)"

definition num_ge :: "jsnum \<Rightarrow> jsnum \<Rightarrow> bool" where
  "num_ge a b = num_le b a"

text \<open>\<open>Math.abs\<close>, \<open>Math.min\<close>, \<open>Math.max\<close>.\<close>

fun Math_abs :: "jsnum \<Rightarrow> jsnum" where
  "Math_abs NaN = NaN"
| "Math_abs PInf = PInf"
| "Math_abs NInf = PInf"
| "Math_abs (Fin x) = Fin \<bar>x\<bar>"

definition Math_min :: "jsnum \<Rightarrow> jsnum \<Rightarrow> jsnum" where
  "Math_min a b = (if isNaN a \<or> isNaN b then NaN else if num_le a b then a else b)"

definition Math_max :: "jsnum \<Rightarrow> jsnum \<Rightarrow> jsnum" where
  "Math_max a b = (if isNaN a \<or> isNaN b then NaN else if num_le a b then b else a)"

text \<open>The arithmetic operators \<open>+\<close>, unary and binary \<open>-\<close>, \<open>*\<close>, \<open>/\<close> and \<open>%\<close>.\<close>

fun num_add :: "jsnum \<Rightarrow> jsnum \<Rightarrow> jsnum" where
  "num_add NaN _ = NaN"
| "num_add _ NaN = NaN"
| "num_add PInf NInf = NaN"
| "num_add NInf PInf = NaN"
| "num_add PInf _ = PInf"
| "num_add _ PInf = PInf"
| "num_add NInf _ = NInf"
| "num_add _ NInf = NInf"
| "num_add (Fin x) (Fin y) = Fin (x + y)"

fun num_neg :: "jsnum \<Rightarrow> jsnum" where
  "num_neg NaN = NaN"
| "num_neg PInf = NInf"
| "num_neg NInf = PInf"
| "num_neg (Fin x) = Fin (- x)"

definition num_sub :: "jsnum \<Rightarrow> jsnum \<Rightarrow> jsnum" where
  "num_sub a b = num_add a (num_neg b)"

text \<open>The sign of a number that is not NaN: \<open>-1\<close>, \<open>0\<close> or \<open>1\<close>.\<close>

fun num_sign :: "jsnum \<Rightarrow> int" where
  "num_sign NaN = 0"
| "num_sign PInf = 1"
| "num_sign NInf = - 1"
| "num_sign (Fin x) = (if x < 0 then - 1 else if x = 0 then 0 else 1)"

fun num_mul :: "jsnum \<Rightarrow> jsnum \<Rightarrow> jsnum" where
  "num_mul NaN _ = NaN"
| "num_mul _ NaN = NaN"
| "num_mul (Fin x) (Fin y) = Fin (x * y)"
| "num_mul a b =
     (let s = num_sign a * num_sign b
      in if s = 0 then NaN else if s < 0 then NInf else PInf)"

fun num_div :: "jsnum \<Rightarrow> jsnum \<Rightarrow> jsnum" where
  "num_div NaN _ = NaN"
| "num_div _ NaN = NaN"
| "num_div (Fin x) (Fin y) =
     (if y = 0 then (if x = 0 then NaN else if x < 0 then NInf else PInf) else Fin (x / y))"
| "num_div (Fin x) _ = Fin 0"
| "num_div a (Fin y) = (if (num_sign a < 0) = (y < 0) then PInf else NInf)"
| "num_div _ _ = NaN"

text \<open>
  \<open>x % y\<close> is the remainder of the division truncated towards zero, so it has the sign
  of the dividend \<open>x\<close>.
\<close>

definition trunc :: "real \<Rightarrow> int" where
  "trunc x = (if x < 0 then - \<lfloor>- x\<rfloor> else \<lfloor>x\<rfloor>)"

fun num_rem :: "jsnum \<Rightarrow> jsnum \<Rightarrow> jsnum" where
  "num_rem NaN _ = NaN"
| "num_rem _ NaN = NaN"
| "num_rem PInf _ = NaN"
| "num_rem NInf _ = NaN"
| "num_rem (Fin x) (Fin y) = (if y = 0 then NaN else Fin (x - y * of_int (trunc (x / y))))"
| "num_rem (Fin x) _ = Fin x"

text \<open>
  The values that reach this code from JSON: \<open>undefined\<close>, \<open>null\<close>, booleans, numbers,
  strings and arrays.
\<close>

datatype jsval =
    JUndefined
  | JNull
  | JBool bool
  | JNum jsnum
  | JStr string
  | JArr "jsval list"

text \<open>Truthiness, as \<open>!v\<close>, \<open>v || w\<close> and \<open>if (v)\<close> test it.\<close>

fun truthy :: "jsval \<Rightarrow> bool" where
  "truthy JUndefined = False"
| "truthy JNull = False"
| "truthy (JBool b) = b"
| "truthy (JNum NaN) = False"
| "truthy (JNum (Fin x)) = (x \<noteq> 0)"
| "truthy (JNum _) = True"
| "truthy (JStr s) = (s \<noteq> [])"
| "truthy (JArr _) = True"

section \<open>Strings and conversions\<close>

text \<open>
  Strings are lists of 8-bit characters. \<open>trim\<close> removes the ASCII white space
  (space, tab, line feed, vertical tab, form feed, carriage return); \<open>toLowerCase\<close>
  and \<open>toUpperCase\<close> change the 26 ASCII letters. Characters outside ASCII are left
  as they are.
\<close>

definition isSpace :: "char \<Rightarrow> bool" where
  "isSpace c = (c \<in> {CHR '' '', CHR 0x09, CHR 0x0A, CHR 0x0B, CHR 0x0C, CHR 0x0D})"

definition trim :: "string \<Rightarrow> string" where
  "trim s = rev (dropWhile isSpace (rev (dropWhile isSpace s)))"

definition toLowerChar :: "char \<Rightarrow> char" where
  "toLowerChar c =
     (case map_of (zip ''ABCDEFGHIJKLMNOPQRSTUVWXYZ'' ''abcdefghijklmnopqrstuvwxyz'') c of
        Some d \<Rightarrow> d | None \<Rightarrow> c)"

definition toUpperChar :: "char \<Rightarrow> char" where
  "toUpperChar c =
     (case map_of (zip ''abcdefghijklmnopqrstuvwxyz'' ''ABCDEFGHIJKLMNOPQRSTUVWXYZ'') c of
        Some d \<Rightarrow> d | None \<Rightarrow> c)"

definition toLowerCase :: "string \<Rightarrow> string" where
  "toLowerCase s = map toLowerChar s"

definition toUpperCase :: "string \<Rightarrow> string" where
  "toUpperCase s = map toUpperChar s"

definition startsWith :: "string \<Rightarrow> string \<Rightarrow> bool" where
  "startsWith s p = (take (length p) s = p)"

definition isDigit :: "char \<Rightarrow> bool" where
  "isDigit c = (c \<in> set ''0123456789'')"

definition digitVal :: "char \<Rightarrow> nat" where
  "digitVal c =
     (case map_of (zip ''0123456789abcdefABCDEF'' [0, 1, 2, 3, 4, 5, 6, 7, 8, 9, 10, 11, 12, 13, 14, 15, 10, 11, 12, 13, 14, 15]) c of
        Some d \<Rightarrow> d | None \<Rightarrow> 0)"

definition parseDigits :: "nat \<Rightarrow> string \<Rightarrow> nat" where
  "parseDigits base ds = foldl (\<lambda>a c. base * a + digitVal c) 0 ds"

fun digitsOfNat :: "nat \<Rightarrow> string" where
  "digitsOfNat n =
     (if n < 10 then [''0123456789'' ! n]
      else digitsOfNat (n div 10) @ [''0123456789'' ! (n mod 10)])"

declare digitsOfNat.simps [simp del]


text \<open>
  \<open>Number(s)\<close> on a string: white space is trimmed; the empty string is 0; then a
  hexadecimal, octal or binary integer literal, a signed \<open>Infinity\<close>, or a signed
  decimal literal with optional fraction and exponent; everything else is NaN.
\<close>

definition scale :: "nat \<Rightarrow> int \<Rightarrow> real" where
  "scale m e = (if 0 \<le> e then of_nat m * 10 ^ nat e else of_nat m / 10 ^ nat (- e))"

definition exponentPart :: "string \<Rightarrow> int option" where
  "exponentPart r =
     (if r = [] then Some 0
      else if hd r = CHR ''e'' \<or> hd r = CHR ''E'' then
        (let r1 = tl r;
             neg = (r1 \<noteq> [] \<and> hd r1 = CHR ''-'');
             ds = (if r1 \<noteq> [] \<and> (hd r1 = CHR ''-'' \<or> hd r1 = CHR ''+'') then tl r1 else r1)
         in if ds \<noteq> [] \<and> list_all isDigit ds
            then Some (if neg then - int (parseDigits 10 ds) else int (parseDigits 10 ds))
            else None)
      else None)"

definition decimalLiteral :: "string \<Rightarrow> real option" where
  "decimalLiteral u =
     (let ip = takeWhile isDigit u;
          r1 = dropWhile isDigit u;
          hasDot = (r1 \<noteq> [] \<and> hd r1 = CHR ''.'');
          fp = (if hasDot then takeWhile isDigit (tl r1) else []);
          r2 = (if hasDot then dropWhile isDigit (tl r1) else r1)
      in if ip = [] \<and> fp = [] then None
         else (case exponentPart r2 of
                 None \<Rightarrow> None
               | Some e \<Rightarrow> Some (scale (parseDigits 10 (ip @ fp)) (e - int (length fp)))))"

definition radixLiteral :: "nat \<Rightarrow> string \<Rightarrow> string \<Rightarrow> jsnum" where
  "radixLiteral base allowed ds =
     (if ds \<noteq> [] \<and> list_all (\<lambda>c. c \<in> set allowed) ds then Fin (of_nat (parseDigits base ds)) else NaN)"

definition strToNumber :: "string \<Rightarrow> jsnum" where
  "strToNumber s =
     (let t = trim s
      in if t = [] then Fin 0
         else if startsWith t ''0x'' \<or> startsWith t ''0X'' then radixLiteral 16 ''0123456789abcdefABCDEF'' (drop 2 t)
         else if startsWith t ''0o'' \<or> startsWith t ''0O'' then radixLiteral 8 ''01234567'' (drop 2 t)
         else if startsWith t ''0b'' \<or> startsWith t ''0B'' then radixLiteral 2 ''01'' (drop 2 t)
         else
           (let neg = (hd t = CHR ''-'');
                u = (if hd t = CHR ''-'' \<or> hd t = CHR ''+'' then tl t else t)
            in if u = ''Infinity'' then (if neg then NInf else PInf)
               else (case decimalLiteral u of
                       None \<Rightarrow> NaN
                     | Some r \<Rightarrow> Fin (if neg then - r else r))))"

text \<open>
  \<open>String(x)\<close> on a number: the shortest decimal digits \<open>s\<close> and the exponent
  \<open>e\<close> with \<open>x = s * 10 ^ e\<close>, laid out as ECMAScript's \<open>Number::toString\<close>
  does (plain digits up to 21 integer digits, a leading \<open>0.\<close> down to \<open>1e-6\<close>,
  exponent notation beyond). A double with at most 15 significant digits prints exactly
  these digits. The search for the fraction digits stops after 400 places.
\<close>

definition isInteger :: "real \<Rightarrow> bool" where
  "isInteger x = (x = of_int \<lfloor>x\<rfloor>)"

function stripZeros :: "nat \<Rightarrow> int \<Rightarrow> nat \<times> int" where
  "stripZeros s e = (if s \<noteq> 0 \<and> s mod 10 = 0 then stripZeros (s div 10) (e + 1) else (s, e))"
  by pat_completeness auto
termination
  by (relation "measure (\<lambda>(s, e). s)") auto

declare stripZeros.simps [simp del]

function scaleUp :: "real \<Rightarrow> nat \<Rightarrow> nat" where
  "scaleUp x j = (if 400 \<le> j \<or> isInteger (x * 10 ^ j) then j else scaleUp x (Suc j))"
  by pat_completeness auto
termination
  by (relation "measure (\<lambda>(x, j). 400 - j)") auto

declare scaleUp.simps [simp del]

definition decompose :: "real \<Rightarrow> nat \<times> int" where
  "decompose x =
     (if isInteger x then stripZeros (nat \<lfloor>x\<rfloor>) 0
      else (let j = scaleUp x 0 in (nat \<lfloor>x * 10 ^ j\<rfloor>, - int j)))"

definition formatDigits :: "nat \<times> int \<Rightarrow> string" where
  "formatDigits p =
     (case p of (s, e) \<Rightarrow>
        let ds = digitsOfNat s; k = int (length ds); n = e + k
        in if k \<le> n \<and> n \<le> 21 then ds @ replicate (nat (n - k)) (CHR ''0'')
           else if 0 < n \<and> n \<le> 21 then take (nat n) ds @ ''.'' @ drop (nat n) ds
           else if - 6 < n \<and> n \<le> 0 then ''0.'' @ replicate (nat (- n)) (CHR ''0'') @ ds
           else
             (let ex = n - 1;
                  exs = (if ex < 0 then ''-'' else ''+'') @ digitsOfNat (nat \<bar>ex\<bar>)
              in if k = 1 then ds @ ''e'' @ exs
                 else [hd ds] @ ''.'' @ tl ds @ ''e'' @ exs))"

fun numToString :: "jsnum \<Rightarrow> string" where
  "numToString NaN = ''NaN''"
| "numToString PInf = ''Infinity''"
| "numToString NInf = ''-Infinity''"
| "numToString (Fin x) =
     (if x = 0 then ''0''
      else if x < 0 then ''-'' @ formatDigits (decompose (- x))
      else formatDigits (decompose x))"

declare numToString.simps [simp del]



text \<open>\<open>String(v)\<close> and \<open>Number(v)\<close> on any value.\<close>

fun joinWith :: "string \<Rightarrow> string list \<Rightarrow> string" where
  "joinWith sep [] = []"
| "joinWith sep [x] = x"
| "joinWith sep (x # y # ys) = x @ sep @ joinWith sep (y # ys)"

fun toStr :: "jsval \<Rightarrow> string" where
  "toStr JUndefined = ''undefined''"
| "toStr JNull = ''null''"
| "toStr (JBool b) = (if b then ''true'' else ''false'')"
| "toStr (JNum n) = numToString n"
| "toStr (JStr s) = s"
| "toStr (JArr xs) =
     joinWith '','' (map (\<lambda>x. if x = JUndefined \<or> x = JNull then [] else toStr x) xs)"

fun toNumber :: "jsval \<Rightarrow> jsnum" where
  "toNumber JUndefined = NaN"
| "toNumber JNull = Fin 0"
| "toNumber (JBool b) = (if b then Fin 1 else Fin 0)"
| "toNumber (JNum n) = n"
| "toNumber (JStr s) = strToNumber s"
| "toNumber (JArr xs) = strToNumber (toStr (JArr xs))"

text \<open>\<open>v == null\<close>: the value is \<open>null\<close> or \<open>undefined\<close>.\<close>

definition nullish :: "jsval \<Rightarrow> bool" where
  "nullish v = (v = JUndefined \<or> v = JNull)"

text \<open>\<open>a ?? b\<close> and \<open>a || b\<close>.\<close>

definition coalesce :: "jsval \<Rightarrow> jsval \<Rightarrow> jsval" where
  "coalesce a b = (if nullish a then b else a)"

definition or_else :: "jsval \<Rightarrow> jsval \<Rightarrow> jsval" where
  "or_else a b = (if truthy a then a else b)"

text \<open>
  A property bag: an object read by name, \<open>undefined\<close> for a name it does not have.
  A bag that is itself \<open>null\<close> or \<open>undefined\<close> and is read with \<open>?.\<close> behaves as the
  empty bag. Property values that are themselves objects are not represented.
\<close>

type_synonym bag = "(string \<times> jsval) list"

definition getProp :: "bag \<Rightarrow> string \<Rightarrow> jsval" where
  "getProp b k = (case map_of b k of None \<Rightarrow> JUndefined | Some v \<Rightarrow> v)"

text \<open>What a \<open>throw\<close> carries: an \<open>Error\<close> or a \<open>TypeError\<close> with its message.\<close>

datatype error = Error string | TypeError string

definition bind_err :: "error + 'a \<Rightarrow> ('a \<Rightarrow> error + 'b) \<Rightarrow> error + 'b" where
  "bind_err m f = (case m of Inl e \<Rightarrow> Inl e | Inr x \<Rightarrow> f x)"

section \<open>Coordinate validation\<close>

text \<open>
  \<open>validateCoordinates\<close>, block by block. The first block decides \<open>needsSwap\<close>
  from the two raw components.
\<close>

definition needsSwap :: "jsnum \<Rightarrow> jsnum \<Rightarrow> bool" where
  "needsSwap first second =
     (let absFirst = Math_abs first; absSecond = Math_abs second
      in if num_gt absSecond (Fin 90) \<or> num_gt absFirst (Fin 180) then True
         else if num_le absFirst (Fin 90) \<and> num_le absSecond (Fin 180) then
           (if num_le absFirst (Fin 90) \<and> num_gt absSecond (Fin 90) then True
            else if num_le absFirst (Fin 90) \<and> num_le absSecond (Fin 180) \<and> num_lt absFirst absSecond then
              ((num_gt first (Fin 0) \<and> num_lt second (Fin 0))
               \<or> (num_lt absFirst (Fin 60) \<and> num_gt absSecond (Fin 60))
               \<or> num_lt absFirst (num_mul absSecond (Fin (8 / 10)))
               \<or> num_lt absFirst (Fin 50))
            else if num_le absFirst (Fin 90) \<and> num_le absSecond (Fin 180)
                    \<and> num_gt first (Fin 0) \<and> num_lt second (Fin 0) then True
            else False)
         else False)"

text \<open>The pair \<open>(lng, lat)\<close> after the swap decision.\<close>

definition applySwap :: "jsnum \<Rightarrow> jsnum \<Rightarrow> jsnum \<times> jsnum" where
  "applySwap first second = (if needsSwap first second then (second, first) else (first, second))"

text \<open>The "final safety check": one more swap, or a clamp of the latitude.\<close>

definition finalSafety :: "jsnum \<times> jsnum \<Rightarrow> jsnum \<times> jsnum" where
  "finalSafety p =
     (case p of (lng, lat) \<Rightarrow>
        if num_lt lat (Fin (- 90)) \<or> num_gt lat (Fin 90) then
          (if num_ge lng (Fin (- 90)) \<and> num_le lng (Fin 90)
              \<and> (num_lt lat (Fin (- 180)) \<or> num_gt lat (Fin 180)
                   \<or> num_gt (Math_abs lat) (Math_abs lng))
           then (lat, lng)
           else (lng, Math_max (Fin (- 90)) (Math_min (Fin 90) lat)))
        else (lng, lat))"

text \<open>The second clamp of the latitude.\<close>

definition clampLat :: "jsnum \<times> jsnum \<Rightarrow> jsnum \<times> jsnum" where
  "clampLat p =
     (case p of (lng, lat) \<Rightarrow>
        if num_lt lat (Fin (- 90)) \<or> num_gt lat (Fin 90)
        then (lng, Math_max (Fin (- 90)) (Math_min (Fin 90) lat))
        else (lng, lat))"

text \<open>The wrap of the longitude: \<open>lng = ((lng + 180) % 360) - 180\<close>.\<close>

definition wrapLng :: "jsnum \<times> jsnum \<Rightarrow> jsnum \<times> jsnum" where
  "wrapLng p =
     (case p of (lng, lat) \<Rightarrow>
        if num_lt lng (Fin (- 180)) \<or> num_gt lng (Fin 180)
        then (num_sub (num_rem (num_add lng (Fin 180)) (Fin 360)) (Fin 180), lat)
        else (lng, lat))"

text \<open>The last guard: \<open>null\<close> (here \<open>None\<close>) or the pair \<open>[lng, lat]\<close>.\<close>

definition finalGuard :: "jsnum \<times> jsnum \<Rightarrow> (jsnum \<times> jsnum) option" where
  "finalGuard p =
     (case p of (lng, lat) \<Rightarrow>
        if num_lt lat (Fin (- 90)) \<or> num_gt lat (Fin 90) \<or> isNaN lat \<or> isNaN lng
        then None
        else Some (lng, lat))"

text \<open>
  The whole function, from the argument as it arrives at run time. \<open>[first, second] = coords\<close>
  reads the first two elements; both must have \<open>typeof\<close> \<open>number\<close> and not be NaN.
\<close>

fun validateCoordinates :: "jsval \<Rightarrow> (jsnum \<times> jsnum) option" where
  "validateCoordinates (JArr (JNum first # JNum second # rest)) =
     (if isNaN first \<or> isNaN second then None
      else finalGuard (wrapLng (clampLat (finalSafety (applySwap first second)))))"
| "validateCoordinates _ = None"

section \<open>The geometry library\<close>

text \<open>
  The geodesic computations are done by the external library turf. Its functions are
  parameters of the model; every call may throw. \<open>turf_lineString\<close> is given the
  coordinate array, or \<open>None\<close> where the code passes \<open>undefined\<close>; lengths and
  distances along a line are in kilometres, the distance of \<open>turf_destination\<close> is in
  metres. \<open>turf.bearing\<close> computes an angle with \<open>atan2\<close>, so its result is a finite
  number of degrees or NaN, never an infinity: \<open>Some b\<close> or \<open>None\<close>.
\<close>

type_synonym position = "jsval list"

record turf =
  turf_lineString :: "position list option \<Rightarrow> error + position list"
  turf_length :: "position list \<Rightarrow> error + jsnum"
  turf_along :: "position list \<Rightarrow> jsnum \<Rightarrow> error + position"
  turf_bearing :: "position \<Rightarrow> position \<Rightarrow> error + real option"
  turf_destination :: "position \<Rightarrow> jsval \<Rightarrow> jsnum \<Rightarrow> error + position"

text \<open>A bearing as a number again, and a number as a bearing (finite, or else NaN).\<close>

fun bearingNum :: "real option \<Rightarrow> jsnum" where
  "bearingNum None = NaN"
| "bearingNum (Some b) = Fin b"

fun finiteOrNaN :: "jsnum \<Rightarrow> real option" where
  "finiteOrNaN (Fin b) = Some b"
| "finiteOrNaN _ = None"

section \<open>Clock positions\<close>

text \<open>
  The two loops \<open>while (bearing < 0) bearing += 360\<close> and
  \<open>while (bearing >= 360) bearing -= 360\<close>. On NaN neither loop is entered.
\<close>

function whileNegative :: "real \<Rightarrow> real" where
  "whileNegative b = (if b < 0 then whileNegative (b + 360) else b)"
  by pat_completeness auto
termination
proof (relation "measure (\<lambda>b. nat \<lceil>- b / 360\<rceil>)")
  show "wf (measure (\<lambda>b::real. nat \<lceil>- b / 360\<rceil>))"
    by (rule wf_measure)
next
  fix b :: real
  assume neg: "b < 0"
  have "- (b + 360) / 360 = - b / 360 - 1"
    by (simp add: field_simps)
  then have "\<lceil>- (b + 360) / 360\<rceil> = \<lceil>- b / 360\<rceil> - 1"
    by (simp only: ceiling_diff_one)
  moreover have "0 < \<lceil>- b / 360\<rceil>"
    using neg by (simp add: ceiling_less_iff)
  ultimately have "nat \<lceil>- (b + 360) / 360\<rceil> < nat \<lceil>- b / 360\<rceil>"
    by linarith
  then show "(b + 360, b) \<in> measure (\<lambda>b. nat \<lceil>- b / 360\<rceil>)"
    by (simp only: in_measure)
qed

function whileTooBig :: "real \<Rightarrow> real" where
  "whileTooBig b = (if 360 \<le> b then whileTooBig (b - 360) else b)"
  by pat_completeness auto
termination
proof (relation "measure (\<lambda>b. nat \<lfloor>b / 360\<rfloor>)")
  show "wf (measure (\<lambda>b::real. nat \<lfloor>b / 360\<rfloor>))"
    by (rule wf_measure)
next
  fix b :: real
  assume big: "360 \<le> b"
  have "(b - 360) / 360 = b / 360 - 1"
    by (simp add: field_simps)
  then have "\<lfloor>(b - 360) / 360\<rfloor> = \<lfloor>b / 360\<rfloor> - 1"
    by (simp only: floor_diff_one)
  moreover have "1 \<le> \<lfloor>b / 360\<rfloor>"
    using big by (simp add: le_floor_iff)
  ultimately have "nat \<lfloor>(b - 360) / 360\<rfloor> < nat \<lfloor>b / 360\<rfloor>"
    by linarith
  then show "(b - 360, b) \<in> measure (\<lambda>b. nat \<lfloor>b / 360\<rfloor>)"
    by (simp only: in_measure)
qed

declare whileNegative.simps [simp del] whileTooBig.simps [simp del]

definition normalizeBearing :: "real option \<Rightarrow> real option" where
  "normalizeBearing bearing = map_option (\<lambda>b. whileTooBig (whileNegative b)) bearing"

text \<open>
  \<open>clockToBearing\<close>: \<open>(clockPosition % 12) * 30\<close>, normalised. The product is finite
  or NaN, whatever the argument.
\<close>

definition clockToBearing :: "jsval \<Rightarrow> jsnum" where
  "clockToBearing clockPosition =
     bearingNum (normalizeBearing
       (finiteOrNaN (num_mul (num_rem (toNumber clockPosition) (Fin 12)) (Fin 30))))"

datatype confidence = high | low | none

text \<open>\<open>clockToSide\<close>: the side (\<open>-1\<close> left, \<open>+1\<close> right, \<open>0\<close> neither) and the confidence.\<close>

definition clockToSide :: "jsval \<Rightarrow> int \<times> confidence" where
  "clockToSide clock =
     (if nullish clock then (0, none)
      else
        (let r = num_rem (num_add (num_rem (toNumber clock) (Fin 12)) (Fin 12)) (Fin 12);
             c = (if truthy (JNum r) then r else Fin 12)
         in if c = Fin 3 then (1, high)
            else if c = Fin 9 then (- 1, high)
            else if num_gt c (Fin 0) \<and> num_lt c (Fin 6) then (1, low)
            else if num_gt c (Fin 6) \<and> num_lt c (Fin 12) then (- 1, low)
            else (0, low)))"

section \<open>Lateral positions and stubs\<close>

datatype geometry =
    Point position
  | LineString "position list"
  | MultiLineString "position list list"
  | OtherGeometry string

record SewerAsset =
  geometry :: geometry
  a_properties :: bag

text \<open>An array element, \<open>undefined\<close> beyond the end.\<close>

definition element :: "jsval list \<Rightarrow> nat \<Rightarrow> jsval" where
  "element xs i = (if i < length xs then xs ! i else JUndefined)"

definition calculateLateralFromPoint :: "turf \<Rightarrow> position \<Rightarrow> jsval \<Rightarrow> jsval \<Rightarrow> error + position" where
  "calculateLateralFromPoint T coordinates tapDistance clockPosition =
     (let lng = element coordinates 0; lat = element coordinates 1;
          bearing = clockToBearing clockPosition
      in turf_destination T [lng, lat] tapDistance bearing)"

text \<open>
  The bearing of the line at the clamped distance, from the points one metre before and
  one metre after it. Both functions on lines compute it with the same statements.
\<close>

definition lineBearingAt :: "turf \<Rightarrow> position list \<Rightarrow> jsnum \<Rightarrow> jsnum \<Rightarrow> error + real option" where
  "lineBearingAt T lineString lineLength clampedDistance =
     (let segmentStart = Math_max (Fin 0) (num_sub clampedDistance (Fin (1 / 1000)));
          segmentEnd = Math_min lineLength (num_add clampedDistance (Fin (1 / 1000)))
      in bind_err (turf_along T lineString segmentStart) (\<lambda>pointBefore.
         bind_err (turf_along T lineString segmentEnd) (\<lambda>pointAfter.
         turf_bearing T pointBefore pointAfter)))"

definition calculateLateralFromLine ::
  "turf \<Rightarrow> position list option \<Rightarrow> jsval \<Rightarrow> jsval \<Rightarrow> error + position" where
  "calculateLateralFromLine T coordinates tapDistance clockPosition =
     (let distanceKm = num_div (toNumber tapDistance) (Fin 1000)
      in bind_err (turf_lineString T coordinates) (\<lambda>lineString.
         bind_err (turf_length T lineString) (\<lambda>lineLength.
         let clampedDistance = Math_min distanceKm lineLength
         in bind_err (turf_along T lineString clampedDistance) (\<lambda>referencePoint.
            if clockPosition \<noteq> JUndefined \<and> clockPosition \<noteq> JNull then
              (let side = fst (clockToSide clockPosition)
               in if side \<noteq> 0 then
                    bind_err (lineBearingAt T lineString lineLength clampedDistance) (\<lambda>lineBearing.
                    let perpendicularBearing = map_option (\<lambda>b. b + of_int side * 90) lineBearing;
                        normalizedBearing = normalizeBearing perpendicularBearing;
                        offsetDistance = JNum (Fin 2)
                    in turf_destination T referencePoint offsetDistance (bearingNum normalizedBearing))
                  else Inr referencePoint)
            else Inr referencePoint))))"

text \<open>Of a MultiLineString the first line is used: \<open>coordinates[0]\<close>, possibly \<open>undefined\<close>.\<close>

definition firstLine :: "position list list \<Rightarrow> position list option" where
  "firstLine ls = (case ls of [] \<Rightarrow> None | l # _ \<Rightarrow> Some l)"

definition calculateLateralPosition :: "turf \<Rightarrow> SewerAsset \<Rightarrow> jsval \<Rightarrow> jsval \<Rightarrow> error + position" where
  "calculateLateralPosition T asset tapDistance clockPosition =
     (case geometry asset of
        Point coordinates \<Rightarrow> calculateLateralFromPoint T coordinates tapDistance clockPosition
      | LineString coordinates \<Rightarrow> calculateLateralFromLine T (Some coordinates) tapDistance clockPosition
      | MultiLineString ls \<Rightarrow> calculateLateralFromLine T (firstLine ls) tapDistance clockPosition
      | OtherGeometry geomType \<Rightarrow> Inl (Error (''Unsupported geometry type: '' @ geomType)))"

record stub =
  connectionPoint :: position
  stubLine :: "position \<times> position"

definition calculateStubFromLine ::
  "turf \<Rightarrow> position list option \<Rightarrow> jsval \<Rightarrow> jsval \<Rightarrow> jsval \<Rightarrow> error + stub" where
  "calculateStubFromLine T coordinates tapDistance clockPosition stubLength =
     (let distanceKm = num_div (toNumber tapDistance) (Fin 1000)
      in bind_err (turf_lineString T coordinates) (\<lambda>lineString.
         bind_err (turf_length T lineString) (\<lambda>lineLength.
         let clampedDistance = Math_min distanceKm lineLength
         in bind_err (turf_along T lineString clampedDistance) (\<lambda>connectionPoint.
            bind_err (lineBearingAt T lineString lineLength clampedDistance) (\<lambda>lineBearing.
            let side = fst (clockToSide clockPosition);
                perpendicularBearing =
                  map_option (\<lambda>b. b + (if side \<noteq> 0 then of_int side * 90 else 90)) lineBearing;
                normalizedBearing = normalizeBearing perpendicularBearing
            in bind_err (turf_destination T connectionPoint stubLength (bearingNum normalizedBearing))
                 (\<lambda>stubEnd.
                    Inr \<lparr>connectionPoint = connectionPoint,
                         stubLine = (connectionPoint, stubEnd)\<rparr>))))))"

text \<open>The default stub length: 3.048 metres.\<close>

definition defaultStubLength :: jsval where
  "defaultStubLength = JNum (Fin (3048 / 1000))"

definition calculateLateralStub ::
  "turf \<Rightarrow> SewerAsset \<Rightarrow> jsval \<Rightarrow> jsval \<Rightarrow> jsval \<Rightarrow> error + stub" where
  "calculateLateralStub T asset tapDistance clockPosition stubLength =
     (case geometry asset of
        Point coordinates \<Rightarrow>
          (let lng = element coordinates 0; lat = element coordinates 1;
               bearing = clockToBearing clockPosition;
               connectionPoint = [lng, lat]
           in bind_err (turf_destination T connectionPoint stubLength bearing) (\<lambda>stubEnd.
                Inr \<lparr>connectionPoint = connectionPoint,
                     stubLine = (connectionPoint, stubEnd)\<rparr>))
      | LineString coordinates \<Rightarrow>
          calculateStubFromLine T (Some coordinates) tapDistance clockPosition stubLength
      | MultiLineString ls \<Rightarrow>
          calculateStubFromLine T (firstLine ls) tapDistance clockPosition stubLength
      | OtherGeometry geomType \<Rightarrow> Inl (Error (''Unsupported geometry type: '' @ geomType)))"

section \<open>A stand-in for the geometry library\<close>

text \<open>
  To run the functions on concrete inputs, \<open>flatTurf\<close> stands in for the library on
  lines that run along the first axis, with kilometres as coordinates: the length of a
  line is the difference of the first coordinates of its ends, the point at a distance is
  the start moved by that distance, every bearing is 90 degrees, and a destination is the
  origin followed by the distance in metres and the bearing, so that the arguments of the
  call can be read off the result.
\<close>

definition flat_lineString :: "position list option \<Rightarrow> error + position list" where
  "flat_lineString coordinates =
     (case coordinates of
        None \<Rightarrow> Inl (TypeError ''Cannot read properties of undefined'')
      | Some cs \<Rightarrow>
          if length cs < 2 then Inl (Error ''coordinates must be an array of two or more positions'')
          else Inr cs)"

definition flat_length :: "position list \<Rightarrow> error + jsnum" where
  "flat_length ls = Inr (num_sub (toNumber (element (last ls) 0)) (toNumber (element (hd ls) 0)))"

definition flat_along :: "position list \<Rightarrow> jsnum \<Rightarrow> error + position" where
  "flat_along ls d = Inr [JNum (num_add (toNumber (element (hd ls) 0)) d), element (hd ls) 1]"

definition flat_destination :: "position \<Rightarrow> jsval \<Rightarrow> jsnum \<Rightarrow> error + position" where
  "flat_destination origin distance bearing = Inr (origin @ [distance, JNum bearing])"

definition flatTurf :: turf where
  "flatTurf =
     \<lparr>turf_lineString = flat_lineString,
      turf_length = flat_length,
      turf_along = flat_along,
      turf_bearing = (\<lambda>p q. Inr (Some 90)),
      turf_destination = flat_destination\<rparr>"

text \<open>A two-point line asset: one kilometre along the first axis for \<open>flatTurf\<close>.\<close>

definition exampleLine :: SewerAsset where
  "exampleLine = \<lparr>geometry = LineString [[JNum (Fin 0), JNum (Fin 0)], [JNum (Fin 1), JNum (Fin 0)]], a_properties = []\<rparr>"

section \<open>Records\<close>

text \<open>
  The records of \<open>lib/types\<close>. A field holds the value found at run time, so an absent
  field is \<open>JUndefined\<close>. \<open>raw\<close> and \<open>properties\<close> are property bags.
\<close>

record InspectionRecord =
  i_assetId :: jsval
  i_pipeSegmentReference :: jsval
  i_inspectionId :: jsval
  i_tapDistance :: jsval
  i_clockPosition :: jsval
  i_inspectionDate :: jsval
  i_isImperial :: jsval
  i_raw :: bag
  i_properties :: bag

record DefectRecord =
  d_id :: jsval
  d_inspectionId :: jsval
  d_pipeSegmentReference :: jsval
  d_defectCode :: jsval
  d_distance :: jsval
  d_clockPosition :: jsval
  d_properties :: bag

section \<open>Matching inspections to assets\<close>

text \<open>\<open>asset.properties?.FID || asset.properties?.fid || asset.properties?.Fid\<close>.\<close>

definition assetFid :: "SewerAsset \<Rightarrow> jsval" where
  "assetFid asset =
     or_else (getProp (a_properties asset) ''FID'')
       (or_else (getProp (a_properties asset) ''fid'') (getProp (a_properties asset) ''Fid''))"

text \<open>
  The key of the asset at position \<open>index\<close> of the array: the trimmed FID, or else the
  first truthy one of \<open>id\<close>, \<open>assetId\<close>, \<open>ASSET_ID\<close> and the string \<open>asset-index\<close>.
  The assets of a request are distinct objects, so \<open>assets.indexOf(asset)\<close> is the
  position of the asset.
\<close>

definition assetKeyOf :: "SewerAsset \<Rightarrow> nat \<Rightarrow> jsval" where
  "assetKeyOf asset index =
     (let fid = assetFid asset
      in if truthy fid then JStr (trim (toStr fid))
         else or_else (getProp (a_properties asset) ''id'')
                (or_else (getProp (a_properties asset) ''assetId'')
                  (or_else (getProp (a_properties asset) ''ASSET_ID'')
                    (JStr (''asset-'' @ digitsOfNat index)))))"

text \<open>The first truthy value among the properties named, \<open>p1 || p2 || ...\<close>.\<close>

fun firstTruthy :: "bag \<Rightarrow> string list \<Rightarrow> jsval" where
  "firstTruthy b [] = JUndefined"
| "firstTruthy b [k] = getProp b k"
| "firstTruthy b (k # ks) = or_else (getProp b k) (firstTruthy b ks)"

definition assetIdOf :: "SewerAsset \<Rightarrow> jsval" where
  "assetIdOf asset =
     firstTruthy (a_properties asset)
       [''id'', ''assetId'', ''ASSET_ID'', ''Asset_ID'', ''ASSETID'', ''AssetId'',
        ''STATION_ID'', ''StationID'', ''station_id'', ''PIPE_ID'', ''PipeID'', ''pipe_id'',
        ''ID'', ''Id'']"

text \<open>
  The two lookup maps, \<open>pipeSegmentRefMap\<close> and \<open>assetIdMap\<close>, from strings to asset
  keys; \<open>lookup\<close> is \<open>Map.get\<close>, \<open>undefined\<close> for a missing key.
\<close>

type_synonym keymap = "string \<rightharpoonup> jsval"

definition lookup :: "keymap \<Rightarrow> string \<Rightarrow> jsval" where
  "lookup m k = (case m k of None \<Rightarrow> JUndefined | Some v \<Rightarrow> v)"

text \<open>The body of the loop over the assets.\<close>

definition registerAsset :: "keymap \<times> keymap \<Rightarrow> SewerAsset \<times> nat \<Rightarrow> keymap \<times> keymap" where
  "registerAsset maps entry =
     (case maps of (pipeSegmentRefMap, assetIdMap) \<Rightarrow>
      case entry of (asset, index) \<Rightarrow>
        let fid = assetFid asset;
            assetKey = assetKeyOf asset index;
            pipeSegmentRefMap1 =
              (if truthy fid then
                 (let fidStr = trim (toStr fid);
                      m1 = pipeSegmentRefMap(fidStr \<mapsto> assetKey);
                      m2 = m1(toLowerCase fidStr \<mapsto> assetKey);
                      fidNum = toNumber fid
                  in if \<not> isNaN fidNum
                     then (m2(numToString fidNum \<mapsto> assetKey))
                            (toLowerCase (numToString fidNum) \<mapsto> assetKey)
                     else m2)
               else pipeSegmentRefMap);
            assetId = assetIdOf asset;
            assetIdMap1 =
              (if truthy assetId \<and> \<not> truthy fid then
                 (let idStr = trim (toStr assetId)
                  in (assetIdMap(idStr \<mapsto> assetKey))(toLowerCase idStr \<mapsto> assetKey))
               else assetIdMap)
        in (pipeSegmentRefMap1, assetIdMap1))"

definition buildLookupMaps :: "SewerAsset list \<Rightarrow> keymap \<times> keymap" where
  "buildLookupMaps assets =
     foldl registerAsset (Map.empty, Map.empty) (zip assets [0 ..< length assets])"

text \<open>The regular expression \<open>/^\\d+$/\<close>: one or more decimal digits and nothing else.\<close>

definition allDigits :: "string \<Rightarrow> bool" where
  "allDigits s = (s \<noteq> [] \<and> list_all isDigit s)"

text \<open>
  The key matched by the pipe segment reference: exact, lower case, through
  \<open>Number\<close>, through \<open>parseInt\<close>; \<open>undefined\<close> when none is found.
\<close>

definition matchByReference :: "keymap \<Rightarrow> string \<Rightarrow> jsval" where
  "matchByReference pipeSegmentRefMap refStr =
     (let k1 = lookup pipeSegmentRefMap refStr;
          k2 = (if \<not> truthy k1 then lookup pipeSegmentRefMap (toLowerCase refStr) else k1);
          k3 = (if \<not> truthy k2 then
                  (let refNum = strToNumber refStr
                   in if \<not> isNaN refNum
                      then or_else (lookup pipeSegmentRefMap (numToString refNum))
                             (lookup pipeSegmentRefMap (toLowerCase (numToString refNum)))
                      else k2)
                else k2);
          k4 = (if \<not> truthy k3 \<and> allDigits refStr then
                  (let normalizedRef = numToString (Fin (of_nat (parseDigits 10 refStr)))
                   in or_else (lookup pipeSegmentRefMap normalizedRef)
                        (lookup pipeSegmentRefMap (toLowerCase normalizedRef)))
                else k3)
      in k4)"

text \<open>
  The key an inspection is filed under: by its pipe segment reference first, by its
  asset identifier otherwise; \<open>None\<close> for an inspection that matches no asset.
\<close>

definition matchedKeyOf :: "keymap \<times> keymap \<Rightarrow> InspectionRecord \<Rightarrow> jsval option" where
  "matchedKeyOf maps inspection =
     (case maps of (pipeSegmentRefMap, assetIdMap) \<Rightarrow>
        let byRef =
              (if truthy (i_pipeSegmentReference inspection)
               then matchByReference pipeSegmentRefMap (trim (toStr (i_pipeSegmentReference inspection)))
               else JUndefined)
        in if truthy byRef then Some byRef
           else if truthy (i_assetId inspection) then
             (let inspectionAssetId = trim (toStr (i_assetId inspection));
                  byId = or_else (lookup assetIdMap inspectionAssetId)
                           (lookup assetIdMap (toLowerCase inspectionAssetId))
              in if truthy byId then Some byId else None)
           else None)"

text \<open>The result map \<open>matched\<close>, from asset keys to the inspections filed under them.\<close>

type_synonym matched = "jsval \<rightharpoonup> InspectionRecord list"

definition fileInspection :: "keymap \<times> keymap \<Rightarrow> matched \<Rightarrow> InspectionRecord \<Rightarrow> matched" where
  "fileInspection maps matched inspection =
     (case matchedKeyOf maps inspection of
        None \<Rightarrow> matched
      | Some matchedKey \<Rightarrow>
          (case matched matchedKey of
             None \<Rightarrow> matched(matchedKey \<mapsto> [inspection])
           | Some found \<Rightarrow> matched(matchedKey \<mapsto> found @ [inspection])))"

definition matchInspectionsToAssets :: "InspectionRecord list \<Rightarrow> SewerAsset list \<Rightarrow> matched" where
  "matchInspectionsToAssets inspections assets =
     foldl (fileInspection (buildLookupMaps assets)) Map.empty inspections"

text \<open>
  For concrete runs: the two-point line asset with a given FID, and an inspection with a
  given pipe segment reference, tap distance and clock position.
\<close>

definition assetWithFid :: "jsval \<Rightarrow> SewerAsset" where
  "assetWithFid fid = exampleLine\<lparr>a_properties := [(''FID'', fid)]\<rparr>"

definition inspectionWith :: "jsval \<Rightarrow> jsval \<Rightarrow> jsval \<Rightarrow> InspectionRecord" where
  "inspectionWith reference tapDistance clockPosition =
     \<lparr>i_assetId = reference, i_pipeSegmentReference = reference, i_inspectionId = JStr ''1'',
      i_tapDistance = tapDistance, i_clockPosition = clockPosition,
      i_inspectionDate = JUndefined, i_isImperial = JUndefined, i_raw = [], i_properties = []\<rparr>"

section \<open>Reverse geocoding\<close>

record GeocodingResult =
  address :: string
  details :: bag


text \<open>
  The state of a promise when the five-second timer of \<open>Promise.race\<close> fires: fulfilled,
  rejected, or still pending. The race rejects in the last two cases.
\<close>

datatype 'a promise = Fulfilled 'a | Rejected error | Pending

definition raceWithTimeout :: "'a promise \<Rightarrow> error + 'a" where
  "raceWithTimeout p =
     (case p of
        Fulfilled r \<Rightarrow> Inr r
      | Rejected e \<Rightarrow> Inl e
      | Pending \<Rightarrow> Inl (Error ''Geocoding timeout''))"

text \<open>
  The geocoder as the request handler meets it: the state, after five seconds, of the
  promise of the \<open>n\<close>-th call, made for a longitude and a latitude.
\<close>

type_synonym geocoder = "nat \<Rightarrow> jsnum \<Rightarrow> jsnum \<Rightarrow> GeocodingResult promise"

section \<open>The request handler\<close>

text \<open>
  The lateral records built by \<open>POST\<close>. The field \<open>properties\<close>, a copy of the
  inspection with the number of its defects, is left out, and with it the block of the
  loop that places the defects of the inspection: that block reads the inspection, writes
  only defect records and \<open>defectCount\<close>, and catches what it throws.
\<close>

record LateralInspection =
  l_id :: string
  l_coordinates :: "jsnum \<times> jsnum"
  l_assetCoordinates :: "(jsnum \<times> jsnum) option"
  l_connectionPoint :: "(jsnum \<times> jsnum) option"
  l_stubLine :: "((jsnum \<times> jsnum) \<times> (jsnum \<times> jsnum)) option"
  l_assetId :: string
  l_tapDistance :: jsval
  l_clockPosition :: jsval
  l_address :: string
  l_addressDetails :: bag
  l_inspectionDate :: jsval

record counters =
  laterals :: "LateralInspection list"
  processedCount :: nat
  skippedCount :: nat

text \<open>The inner \<open>try\<close>: the connection point and the stub line, each kept if valid.\<close>

definition stubOf ::
  "turf \<Rightarrow> SewerAsset \<Rightarrow> jsval \<Rightarrow> jsval
   \<Rightarrow> (jsnum \<times> jsnum) option \<times> ((jsnum \<times> jsnum) \<times> (jsnum \<times> jsnum)) option" where
  "stubOf T asset tapDistance clockPosition =
     (case calculateLateralStub T asset tapDistance clockPosition defaultStubLength of
        Inl stubError \<Rightarrow> (None, None)
      | Inr stubResult \<Rightarrow>
          (validateCoordinates (JArr (connectionPoint stubResult)),
           (case (validateCoordinates (JArr (fst (stubLine stubResult))),
                  validateCoordinates (JArr (snd (stubLine stubResult)))) of
              (Some validatedStart, Some validatedEnd) \<Rightarrow> Some (validatedStart, validatedEnd)
            | _ \<Rightarrow> None)))"

text \<open>The reference point of the asset, validated.\<close>

definition assetCoordinatesOf :: "SewerAsset \<Rightarrow> (jsnum \<times> jsnum) option" where
  "assetCoordinatesOf asset =
     (let rawAssetCoords =
            (case geometry asset of
               Point coordinates \<Rightarrow> Some coordinates
             | LineString coordinates \<Rightarrow> (case coordinates of [] \<Rightarrow> None | c # _ \<Rightarrow> Some c)
             | MultiLineString ls \<Rightarrow>
                 (case ls of [] \<Rightarrow> None | [] # _ \<Rightarrow> None | (c # _) # _ \<Rightarrow> Some c)
             | OtherGeometry _ \<Rightarrow> None)
      in case rawAssetCoords of
           None \<Rightarrow> None
         | Some raw \<Rightarrow> validateCoordinates (JArr raw))"

text \<open>
  The result of the geocoding step: what the race with the timer yields, or the
  placeholder when the race rejects.
\<close>

definition geocodeOrPlaceholder :: "GeocodingResult promise \<Rightarrow> GeocodingResult" where
  "geocodeOrPlaceholder p =
     (case raceWithTimeout p of
        Inr result \<Rightarrow> result
      | Inl geocodeError \<Rightarrow> \<lparr>address = ''Address not found'', details = []\<rparr>)"

text \<open>The lateral record, from what the steps before it produced.\<close>

definition lateralRecord ::
  "string \<Rightarrow> InspectionRecord \<Rightarrow> nat
   \<Rightarrow> (jsnum \<times> jsnum) option \<times> ((jsnum \<times> jsnum) \<times> (jsnum \<times> jsnum)) option
   \<Rightarrow> (jsnum \<times> jsnum) option \<Rightarrow> jsnum \<times> jsnum \<Rightarrow> GeocodingResult \<Rightarrow> LateralInspection" where
  "lateralRecord assetKeyStr inspection count stubParts assetCoordinates validatedCoordinates geocodingResult =
     \<lparr>l_id = ''lateral-'' @ assetKeyStr @ ''-'' @ toStr (i_tapDistance inspection)
             @ ''-'' @ toStr (i_clockPosition inspection)
             @ ''-'' @ digitsOfNat count,
      l_coordinates = validatedCoordinates,
      l_assetCoordinates = assetCoordinates,
      l_connectionPoint = fst stubParts,
      l_stubLine = snd stubParts,
      l_assetId = assetKeyStr,
      l_tapDistance = i_tapDistance inspection,
      l_clockPosition = i_clockPosition inspection,
      l_address = address geocodingResult,
      l_addressDetails = details geocodingResult,
      l_inspectionDate = i_inspectionDate inspection\<rparr>"

text \<open>
  The body of the loop over the inspections of an asset, from the test of the required
  fields to the end.
\<close>

definition processInspection ::
  "turf \<Rightarrow> geocoder \<Rightarrow> SewerAsset \<Rightarrow> string \<Rightarrow> counters \<Rightarrow> InspectionRecord \<Rightarrow> counters" where
  "processInspection T geocode asset assetKeyStr st inspection =
     (if \<not> truthy (i_tapDistance inspection)
         \<or> i_clockPosition inspection = JUndefined
         \<or> i_clockPosition inspection = JNull
      then st\<lparr>skippedCount := skippedCount st + 1\<rparr>
      else
        (let stubParts = stubOf T asset (i_tapDistance inspection) (i_clockPosition inspection)
         in case calculateLateralPosition T asset (i_tapDistance inspection) (i_clockPosition inspection) of
              Inl error \<Rightarrow> st\<lparr>skippedCount := skippedCount st + 1\<rparr>
            | Inr coordinates \<Rightarrow>
                (case validateCoordinates (JArr coordinates) of
                   None \<Rightarrow> st\<lparr>skippedCount := skippedCount st + 1\<rparr>
                 | Some validatedCoordinates \<Rightarrow>
                     (let assetCoordinates = assetCoordinatesOf asset;
                          geocodingResult =
                            geocodeOrPlaceholder
                              (geocode (processedCount st)
                                 (fst validatedCoordinates) (snd validatedCoordinates));
                          lateral =
                            lateralRecord assetKeyStr inspection (processedCount st) stubParts
                              assetCoordinates validatedCoordinates geocodingResult
                      in st\<lparr>laterals := laterals st @ [lateral],
                            processedCount := processedCount st + 1\<rparr>))))"

text \<open>The body of the loop over the assets, and the loop.\<close>

definition processAsset ::
  "turf \<Rightarrow> geocoder \<Rightarrow> matched \<Rightarrow> counters \<Rightarrow> SewerAsset \<times> nat \<Rightarrow> counters" where
  "processAsset T geocode matchedInspections st entry =
     (case entry of (asset, index) \<Rightarrow>
        let assetKeyStr = trim (toStr (assetKeyOf asset index));
            assetInspections =
              (case matchedInspections (JStr assetKeyStr) of None \<Rightarrow> [] | Some found \<Rightarrow> found)
        in foldl (processInspection T geocode asset assetKeyStr) st assetInspections)"

definition processAssets ::
  "turf \<Rightarrow> geocoder \<Rightarrow> SewerAsset list \<Rightarrow> InspectionRecord list \<Rightarrow> counters" where
  "processAssets T geocode assets inspections =
     foldl (processAsset T geocode (matchInspectionsToAssets inspections assets))
       \<lparr>laterals = [], processedCount = 0, skippedCount = 0\<rparr>
       (zip assets [0 ..< length assets])"



text \<open>Geocoders for concrete runs: one that never answers in time, and one that answers
  with what \<open>reverseGeocode\<close> returns when its request fails.\<close>

definition stalledGeocoder :: geocoder where
  "stalledGeocoder n lng lat = Pending"


section \<open>Taps from defects\<close>

text \<open>
  \<open>isTapCode\<close>: the code, trimmed and in upper case, starts with TB, TF or TS. A code
  that is neither a string nor \<open>null\<close> nor \<open>undefined\<close> has no method \<open>trim\<close>: the
  call throws a TypeError.
\<close>

definition isTapCode :: "jsval \<Rightarrow> error + bool" where
  "isTapCode code =
     (case coalesce code (JStr []) of
        JStr s \<Rightarrow>
          (let c = toUpperCase (trim s)
           in Inr (startsWith c ''TB'' \<or> startsWith c ''TF'' \<or> startsWith c ''TS''))
      | _ \<Rightarrow> Inl (TypeError ''trim is not a function''))"

text \<open>\<open>d.defectCode ?? d.properties?.PACP_Code ?? d.properties?.Code\<close>.\<close>

definition defectCodeOf :: "DefectRecord \<Rightarrow> jsval" where
  "defectCodeOf d =
     coalesce (coalesce (d_defectCode d) (getProp (d_properties d) ''PACP_Code''))
       (getProp (d_properties d) ''Code'')"

text \<open>The predicate of the filter of step 1.\<close>

definition isTapDefect :: "DefectRecord \<Rightarrow> error + bool" where
  "isTapDefect d =
     (let code = defectCodeOf d
      in bind_err (isTapCode code) (\<lambda>hasTapCode.
           let hasDistance = (\<not> nullish (d_distance d) \<and> \<not> isNaN (toNumber (d_distance d)))
           in Inr (hasTapCode \<and> hasDistance)))"

text \<open>\<open>Array.filter\<close> with a predicate that may throw.\<close>

fun filterThrowing :: "('a \<Rightarrow> error + bool) \<Rightarrow> 'a list \<Rightarrow> error + 'a list" where
  "filterThrowing p [] = Inr []"
| "filterThrowing p (x # xs) =
     bind_err (p x) (\<lambda>keep.
     bind_err (filterThrowing p xs) (\<lambda>rest.
     Inr (if keep then x # rest else rest)))"

text \<open>Step 2: the inspections by trimmed identifier; a later inspection replaces an earlier one.\<close>

definition inspectionsById :: "InspectionRecord list \<Rightarrow> (string \<rightharpoonup> InspectionRecord)" where
  "inspectionsById inspections =
     foldl (\<lambda>m i. if truthy (i_inspectionId i) then m(trim (toStr (i_inspectionId i)) \<mapsto> i) else m)
       Map.empty inspections"

text \<open>Step 3: the trimmed FIDs of the assets.\<close>

definition fidSet :: "SewerAsset list \<Rightarrow> string list" where
  "fidSet assets = map (\<lambda>a. trim (toStr (assetFid a))) (filter (\<lambda>a. truthy (assetFid a)) assets)"

text \<open>
  The distance handed to the projection in step 4: \<open>Number(tapDefect.distance)\<close>, times
  0.3048 when \<open>inspection.isImperial ?? inspection.raw?.IsImperial ??
  inspection.properties?.IsImperial\<close> is the number 1 or \<open>true\<close>.
\<close>

definition imperialFlag :: "InspectionRecord \<Rightarrow> jsval" where
  "imperialFlag inspection =
     coalesce (coalesce (i_isImperial inspection) (getProp (i_raw inspection) ''IsImperial''))
       (getProp (i_properties inspection) ''IsImperial'')"

definition tapDistanceMeters :: "InspectionRecord \<Rightarrow> DefectRecord \<Rightarrow> jsnum" where
  "tapDistanceMeters inspection tapDefect =
     (let distanceMeters = toNumber (d_distance tapDefect);
          isImperial = imperialFlag inspection
      in if isImperial = JNum (Fin 1) \<or> isImperial = JBool True
         then num_mul distanceMeters (Fin (3048 / 10000))
         else distanceMeters)"

text \<open>The body of the loop of step 4: the tap point of a defect, or nothing.\<close>

definition tapPoint ::
  "turf \<Rightarrow> SewerAsset list \<Rightarrow> (string \<rightharpoonup> InspectionRecord) \<Rightarrow> DefectRecord
   \<Rightarrow> (DefectRecord \<times> position) option" where
  "tapPoint T assets inspById tapDefect =
     (case inspById (trim (toStr (d_inspectionId tapDefect))) of
        None \<Rightarrow> None
      | Some inspection \<Rightarrow>
          (let fid = trim (toStr (coalesce (i_pipeSegmentReference inspection) (JStr [])))
           in case find (\<lambda>a. truthy (assetFid a) \<and> trim (toStr (assetFid a)) = fid) assets of
                None \<Rightarrow> None
              | Some asset \<Rightarrow>
                  (let distanceMeters = tapDistanceMeters inspection tapDefect;
                       clockPosition = coalesce (d_clockPosition tapDefect) (JNum (Fin 12))
                   in case calculateLateralPosition T asset (JNum distanceMeters) clockPosition of
                        Inl error \<Rightarrow> None
                      | Inr tapCoordinates \<Rightarrow> Some (tapDefect, tapCoordinates))))"

text \<open>\<open>tapPoints\<close>: the four steps. An exception in step 1 leaves the list empty.\<close>

definition tapPoints ::
  "turf \<Rightarrow> DefectRecord list \<Rightarrow> SewerAsset list \<Rightarrow> InspectionRecord list
   \<Rightarrow> (DefectRecord \<times> position) list" where
  "tapPoints T defects assets inspections =
     (if defects = [] \<or> assets = [] \<or> inspections = [] then []
      else
        (case filterThrowing isTapDefect defects of
           Inl error \<Rightarrow> []
         | Inr tapDefects \<Rightarrow>
             (let inspById = inspectionsById inspections;
                  tapsWithInspection =
                    filter (\<lambda>t. truthy (d_inspectionId t)
                                \<and> inspById (trim (toStr (d_inspectionId t))) \<noteq> None) tapDefects;
                  tapsWithPipe =
                    filter (\<lambda>t. case inspById (trim (toStr (d_inspectionId t))) of
                                  None \<Rightarrow> False
                                | Some insp \<Rightarrow>
                                    trim (toStr (coalesce (i_pipeSegmentReference insp) (JStr [])))
                                      \<in> set (fidSet assets))
                      tapsWithInspection
              in List.map_filter (tapPoint T assets inspById) tapsWithPipe)))"

text \<open>
  The classification in the words of the specification: the trimmed code starts with
  TB, TF or TS, compared without regard to case, and the distance is a number.
\<close>

definition tapBySpec :: "string \<Rightarrow> jsval \<Rightarrow> bool" where
  "tapBySpec code distance \<longleftrightarrow>
     (\<exists>p\<in>{''TB'', ''TF'', ''TS''}. \<exists>start rest.
         trim code = start @ rest \<and> toLowerCase start = toLowerCase p)
     \<and> (\<exists>x. distance = JNum x \<and> \<not> isNaN x)"


text \<open>For concrete runs: a defect of inspection 1 with a code, a distance and no clock.\<close>

definition defectWith :: "jsval \<Rightarrow> jsval \<Rightarrow> DefectRecord" where
  "defectWith code distance =
     \<lparr>d_id = JStr ''defect-1-0'', d_inspectionId = JStr ''1'', d_pipeSegmentReference = JUndefined,
      d_defectCode = code, d_distance = distance, d_clockPosition = JUndefined,
      d_properties = []\<rparr>"

section \<open>Validation of the export\<close>

text \<open>
  A feature of the exported collection: its property bag, the type of its geometry and
  the coordinates of the geometry as they are found at run time.
\<close>

record Feature =
  f_properties :: bag
  f_type :: string
  f_coordinates :: jsval

text \<open>An entry of the error list or of the warning list.\<close>

record issue =
  featureId :: jsval
  message :: string
  coordinates :: jsval

record validation =
  errors :: "issue list"
  warnings :: "issue list"
  pointCount :: nat
  lineStringCount :: nat
  minLat :: jsnum
  maxLat :: jsnum
  minLng :: jsnum
  maxLng :: jsnum

text \<open>
  Where a coordinate pair is checked: as the coordinates of a Point, or as the point
  \<open>pointIndex\<close> of a LineString. The two places differ in their messages only.
\<close>

datatype place = OfPoint | OfLinePoint nat

fun invalidArrayText :: "place \<Rightarrow> string" where
  "invalidArrayText OfPoint = ''Invalid coordinate array''"
| "invalidArrayText (OfLinePoint pointIndex) = ''Invalid coordinate at point '' @ digitsOfNat pointIndex"

fun nanText :: "place \<Rightarrow> string" where
  "nanText OfPoint = ''Coordinates contain NaN''"
| "nanText (OfLinePoint pointIndex) = ''Point '' @ digitsOfNat pointIndex @ '' contains NaN''"

fun latitudeText :: "place \<Rightarrow> jsval \<Rightarrow> string" where
  "latitudeText OfPoint lat =
     ''Invalid latitude: '' @ toStr lat @ '' (must be between -90 and 90)''"
| "latitudeText (OfLinePoint pointIndex) lat =
     ''Point '' @ digitsOfNat pointIndex @ '' has invalid latitude: '' @ toStr lat
       @ '' (must be between -90 and 90)''"

fun longitudeText :: "place \<Rightarrow> jsval \<Rightarrow> string" where
  "longitudeText OfPoint lng =
     ''Longitude '' @ toStr lng @ '' outside standard range (will be wrapped)''"
| "longitudeText (OfLinePoint pointIndex) lng =
     ''Point '' @ digitsOfNat pointIndex @ '' longitude '' @ toStr lng @ '' outside standard range''"

text \<open>\<open>!Array.isArray(coords) || coords.length < 2\<close>.\<close>

fun notAPair :: "jsval \<Rightarrow> bool" where
  "notAPair (JArr xs) = (length xs < 2)"
| "notAPair _ = True"

text \<open>The elements of an array; used only after \<open>Array.isArray\<close> has held.\<close>

fun elements :: "jsval \<Rightarrow> jsval list" where
  "elements (JArr xs) = xs"
| "elements _ = []"

text \<open>
  The check of one coordinate pair. The global \<open>isNaN\<close> and the comparisons convert
  their argument to a number first.
\<close>

definition checkCoordinates :: "place \<Rightarrow> jsval \<Rightarrow> validation \<Rightarrow> jsval \<Rightarrow> validation" where
  "checkCoordinates pl fid st coords =
     (if notAPair coords then
        st\<lparr>errors := errors st @
              [\<lparr>featureId = fid, message = invalidArrayText pl, coordinates = coords\<rparr>]\<rparr>
      else
        (let lng = element (elements coords) 0; lat = element (elements coords) 1
         in if isNaN (toNumber lng) \<or> isNaN (toNumber lat) then
              st\<lparr>errors := errors st @
                    [\<lparr>featureId = fid, message = nanText pl, coordinates = coords\<rparr>]\<rparr>
            else
              (let st1 =
                     (if num_lt (toNumber lat) (Fin (- 90)) \<or> num_gt (toNumber lat) (Fin 90)
                      then st\<lparr>errors := errors st @
                                 [\<lparr>featureId = fid, message = latitudeText pl lat,
                                   coordinates = coords\<rparr>]\<rparr>
                      else st);
                    st2 =
                     (if num_lt (toNumber lng) (Fin (- 180)) \<or> num_gt (toNumber lng) (Fin 180)
                      then st1\<lparr>warnings := warnings st1 @
                                  [\<lparr>featureId = fid, message = longitudeText pl lng,
                                    coordinates = coords\<rparr>]\<rparr>
                      else st1)
               in st2\<lparr>minLat := Math_min (minLat st2) (toNumber lat),
                      maxLat := Math_max (maxLat st2) (toNumber lat),
                      minLng := Math_min (minLng st2) (toNumber lng),
                      maxLng := Math_max (maxLng st2) (toNumber lng)\<rparr>)))"

text \<open>The callback of \<open>geojson.features.forEach\<close>.\<close>

definition checkFeature :: "validation \<Rightarrow> Feature \<times> nat \<Rightarrow> validation" where
  "checkFeature st entry =
     (case entry of (feature, index) \<Rightarrow>
        let fid = or_else (getProp (f_properties feature) ''id'')
                    (JStr (''feature-'' @ digitsOfNat index))
        in if f_type feature = ''Point'' then
             checkCoordinates OfPoint fid (st\<lparr>pointCount := pointCount st + 1\<rparr>)
               (f_coordinates feature)
           else if f_type feature = ''LineString'' then
             (let st1 = st\<lparr>lineStringCount := lineStringCount st + 1\<rparr>;
                  coordsArray = f_coordinates feature
              in if notAPair coordsArray then
                   st1\<lparr>errors := errors st1 @
                          [\<lparr>featureId = fid, message = ''Invalid LineString coordinates array'',
                            coordinates = coordsArray\<rparr>]\<rparr>
                 else
                   foldl (\<lambda>s point. checkCoordinates (OfLinePoint (snd point)) fid s (fst point)) st1
                     (zip (elements coordsArray) [0 ..< length (elements coordsArray)]))
           else st)"

record report =
  isValid :: bool
  r_errors :: "issue list"
  r_warnings :: "issue list"
  totalFeatures :: nat
  pointFeatures :: nat
  lineStringFeatures :: nat
  latitudeRange :: "jsnum \<times> jsnum"
  longitudeRange :: "jsnum \<times> jsnum"

definition validateGeoJSONExport :: "Feature list \<Rightarrow> report" where
  "validateGeoJSONExport features =
     (let st = foldl checkFeature
                 \<lparr>errors = [], warnings = [], pointCount = 0, lineStringCount = 0,
                  minLat = PInf, maxLat = NInf, minLng = PInf, maxLng = NInf\<rparr>
                 (zip features [0 ..< length features])
      in \<lparr>isValid = (length (errors st) = 0),
          r_errors = errors st,
          r_warnings = warnings st,
          totalFeatures = length features,
          pointFeatures = pointCount st,
          lineStringFeatures = lineStringCount st,
          latitudeRange = (if minLat st = PInf then Fin 0 else minLat st,
                           if maxLat st = NInf then Fin 0 else maxLat st),
          longitudeRange = (if minLng st = PInf then Fin 0 else minLng st,
                            if maxLng st = NInf then Fin 0 else maxLng st)\<rparr>)"

text \<open>
  A coordinate pair that must produce an error: it is not an array of at least two
  elements, or one of its first two elements is NaN as a number, or its latitude lies
  outside \<open>[-90, 90]\<close>.
\<close>

definition faultyCoordinates :: "jsval \<Rightarrow> bool" where
  "faultyCoordinates coords \<longleftrightarrow>
     notAPair coords
     \<or> isNaN (toNumber (element (elements coords) 0))
     \<or> isNaN (toNumber (element (elements coords) 1))
     \<or> num_lt (toNumber (element (elements coords) 1)) (Fin (- 90))
     \<or> num_gt (toNumber (element (elements coords) 1)) (Fin 90)"

definition faultyFeature :: "Feature \<Rightarrow> bool" where
  "faultyFeature feature \<longleftrightarrow>
     (f_type feature = ''Point'' \<and> faultyCoordinates (f_coordinates feature))
     \<or> (f_type feature = ''LineString''
         \<and> (notAPair (f_coordinates feature)
              \<or> list_ex faultyCoordinates (elements (f_coordinates feature))))"

text \<open>For concrete runs: a Point feature at a longitude and a latitude.\<close>

definition pointFeature :: "jsnum \<Rightarrow> jsnum \<Rightarrow> Feature" where
  "pointFeature lng lat =
     \<lparr>f_properties = [], f_type = ''Point'', f_coordinates = JArr [JNum lng, JNum lat]\<rparr>"

section \<open>Evaluation of the string functions\<close>

lemmas str_defs = trim_def isSpace_def toLowerCase_def toLowerChar_def toUpperCase_def toUpperChar_def
  startsWith_def isDigit_def digitVal_def parseDigits_def scale_def exponentPart_def decimalLiteral_def
  radixLiteral_def strToNumber_def isInteger_def decompose_def formatDigits_def numToString.simps

section \<open>Properties of the coordinate validation\<close>

lemma finalGuard_Some:
  assumes "finalGuard p = Some (lng, lat)"
  shows "\<exists>r. lat = Fin r \<and> - 90 \<le> r \<and> r \<le> 90" and "\<not> isNaN lng"
  using assms
  by (cases p; cases lat; cases lng; auto simp: finalGuard_def num_gt_def split: if_splits)+

lemmas validate_defs =
  applySwap_def needsSwap_def finalSafety_def clampLat_def wrapLng_def finalGuard_def
  num_gt_def num_ge_def num_sub_def trunc_def Math_min_def Math_max_def

text \<open>
  Claim C3. \<open>validateCoordinates\<close> is a total function. Whenever it returns a pair
  \<open>[lng, lat]\<close>, the latitude is a finite number in \<open>[-90, 90]\<close> and the longitude is not
  NaN. It returns \<open>null\<close> for every argument that is not an array whose first two elements
  are numbers other than NaN. On \<open>[91, 45]\<close> it returns \<open>[91, 45]\<close>, whose latitude is 45.
\<close>

theorem validateCoordinates_latitude_in_range:
  "(validateCoordinates v = None
      \<or> (\<exists>lng r. validateCoordinates v = Some (lng, Fin r) \<and> - 90 \<le> r \<and> r \<le> 90 \<and> \<not> isNaN lng))
   \<and> ((\<nexists>a b rest. v = JArr (JNum a # JNum b # rest) \<and> \<not> isNaN a \<and> \<not> isNaN b)
        \<longrightarrow> validateCoordinates v = None)
   \<and> validateCoordinates (JArr [JNum (Fin 91), JNum (Fin 45)]) = Some (Fin 91, Fin 45)"
proof (intro conjI)
  show "validateCoordinates v = None
      \<or> (\<exists>lng r. validateCoordinates v = Some (lng, Fin r) \<and> - 90 \<le> r \<and> r \<le> 90 \<and> \<not> isNaN lng)"
  proof (cases "validateCoordinates v")
    case None
    then show ?thesis by simp
  next
    case (Some q)
    obtain lng lat where q: "q = (lng, lat)" by (cases q)
    from Some q obtain p where "finalGuard p = Some (lng, lat)"
      by (cases v rule: validateCoordinates.cases) (auto split: if_splits)
    from finalGuard_Some [OF this] Some q show ?thesis by auto
  qed
next
  show "(\<nexists>a b rest. v = JArr (JNum a # JNum b # rest) \<and> \<not> isNaN a \<and> \<not> isNaN b)
        \<longrightarrow> validateCoordinates v = None"
    by (cases v rule: validateCoordinates.cases) auto
next
  show "validateCoordinates (JArr [JNum (Fin 91), JNum (Fin 45)]) = Some (Fin 91, Fin 45)"
    by (simp add: validate_defs)
qed

theorem validateCoordinates_latitude_in_range_witness:
  "validateCoordinates (JArr [JNum NaN, JNum (Fin 45)]) = None
   \<and> validateCoordinates (JStr ''91,45'') = None
   \<and> (\<exists>lng r. validateCoordinates (JArr [JNum (Fin 45), JNum (Fin 200)]) = Some (lng, Fin r)
         \<and> - 90 \<le> r \<and> r \<le> 90 \<and> \<not> isNaN lng)"
proof -
  have some: "validateCoordinates (JArr [JNum (Fin 45), JNum (Fin 200)]) \<noteq> None"
    by (simp add: validate_defs)
  show ?thesis
    using validateCoordinates_latitude_in_range [of "JArr [JNum NaN, JNum (Fin 45)]"]
      validateCoordinates_latitude_in_range [of "JStr ''91,45''"]
      validateCoordinates_latitude_in_range [of "JArr [JNum (Fin 45), JNum (Fin 200)]"]
      some
    by auto
qed

text \<open>
  Claim C4. The longitude of a returned pair is meant to lie in \<open>[-180, 180]\<close>. The wrap
  \<open>((lng + 180) % 360) - 180\<close> achieves it above 180 but not below \<open>-180\<close>, where
  the remainder keeps the negative sign of \<open>lng + 180\<close>: on \<open>[-200, 45]\<close> the function
  returns \<open>[-200, 45]\<close>, while \<open>[200, 45]\<close> is wrapped to \<open>[-160, 45]\<close>.
\<close>

theorem validateCoordinates_negative_longitude_not_wrapped:
  "validateCoordinates (JArr [JNum (Fin (- 200)), JNum (Fin 45)]) = Some (Fin (- 200), Fin 45)
   \<and> validateCoordinates (JArr [JNum (Fin 200), JNum (Fin 45)]) = Some (Fin (- 160), Fin 45)"
  by (simp add: validate_defs)

section \<open>Properties of the geometry\<close>

lemma clock_product_finite_or_NaN: "num_mul (num_rem x (Fin 12)) (Fin 30) \<notin> {PInf, NInf}"
  by (cases x) auto

lemmas flat_defs = flatTurf_def flat_lineString_def flat_length_def flat_along_def flat_destination_def
  element_def


lemma whileNegative_props:
  "0 \<le> whileNegative b \<and> (b < 360 \<longrightarrow> whileNegative b < 360) \<and> (\<exists>k::int. whileNegative b = b + 360 * of_int k)"
proof (induction b rule: whileNegative.induct)
  case (1 b)
  show ?case
  proof (cases "b < 0")
    case True
    with 1 obtain k :: int where k: "whileNegative (b + 360) = b + 360 + 360 * of_int k"
      and r: "0 \<le> whileNegative (b + 360)" "whileNegative (b + 360) < 360"
      by auto
    have eq: "whileNegative b = whileNegative (b + 360)"
      using True by (subst whileNegative.simps) simp
    have "whileNegative b = b + 360 * of_int (k + 1)"
      using k eq by (simp add: algebra_simps)
    with r eq show ?thesis by metis
  next
    case False
    then have "whileNegative b = b" by (subst whileNegative.simps) simp
    moreover have "b = b + 360 * of_int 0" by simp
    ultimately show ?thesis using False by (metis not_less)
  qed
qed

lemma whileTooBig_props:
  "whileTooBig b < 360 \<and> (0 \<le> b \<longrightarrow> 0 \<le> whileTooBig b) \<and> (\<exists>k::int. whileTooBig b = b + 360 * of_int k)"
proof (induction b rule: whileTooBig.induct)
  case (1 b)
  show ?case
  proof (cases "360 \<le> b")
    case True
    with 1 obtain k :: int where k: "whileTooBig (b - 360) = b - 360 + 360 * of_int k"
      and r: "0 \<le> whileTooBig (b - 360)" "whileTooBig (b - 360) < 360"
      by auto
    have eq: "whileTooBig b = whileTooBig (b - 360)"
      using True by (subst whileTooBig.simps) simp
    have "whileTooBig b = b + 360 * of_int (k - 1)"
      using k eq by (simp add: algebra_simps)
    with r eq show ?thesis by metis
  next
    case False
    then have "whileTooBig b = b" by (subst whileTooBig.simps) simp
    moreover have "b = b + 360 * of_int 0" by simp
    ultimately show ?thesis using False by (metis not_le)
  qed
qed

lemma normalized_bearing:
  "0 \<le> whileTooBig (whileNegative b) \<and> whileTooBig (whileNegative b) < 360
   \<and> (\<exists>k::int. whileTooBig (whileNegative b) = b + 360 * of_int k)"
proof -
  obtain k1 :: int where k1: "whileNegative b = b + 360 * of_int k1" and p: "0 \<le> whileNegative b"
    using whileNegative_props [of b] by auto
  obtain k2 :: int where k2: "whileTooBig (whileNegative b) = whileNegative b + 360 * of_int k2"
    and q: "whileTooBig (whileNegative b) < 360" "0 \<le> whileTooBig (whileNegative b)"
    using whileTooBig_props [of "whileNegative b"] p by auto
  have "whileTooBig (whileNegative b) = b + 360 * of_int (k1 + k2)"
    using k1 k2 by (simp add: algebra_simps)
  with q show ?thesis by blast
qed







text \<open>
  Claim C8. On a line asset, when \<open>clockToSide\<close> gives side 0 (as it does at 12 and at
  6 o'clock): the plain lateral position is the point along the line at the clamped
  distance, without offset; the stub goes from that point to the destination at the stub
  length on the bearing of the line plus 90 degrees, normalised into \<open>[0, 360)\<close>.
\<close>

theorem ambiguous_side_on_line_and_stub_at_right_angle:
  assumes "turf_lineString T (Some cs) = Inr ls"
    and "turf_length T ls = Inr lineLength"
    and "fst (clockToSide clock) = 0"
  shows "calculateLateralFromLine T (Some cs) tapDistance clock
           = turf_along T ls (Math_min (num_div (toNumber tapDistance) (Fin 1000)) lineLength)
       \<and> (\<forall>cp b. turf_along T ls (Math_min (num_div (toNumber tapDistance) (Fin 1000)) lineLength) = Inr cp
              \<and> lineBearingAt T ls lineLength (Math_min (num_div (toNumber tapDistance) (Fin 1000)) lineLength)
                   = Inr (Some b)
            \<longrightarrow> (\<exists>nb. 0 \<le> nb \<and> nb < 360 \<and> (\<exists>k::int. nb = b + 90 + 360 * of_int k)
                   \<and> calculateStubFromLine T (Some cs) tapDistance clock stubLength
                       = bind_err (turf_destination T cp stubLength (Fin nb))
                           (\<lambda>stubEnd. Inr \<lparr>connectionPoint = cp, stubLine = (cp, stubEnd)\<rparr>)))
       \<and> clockToSide (JNum (Fin 12)) = (0, low) \<and> clockToSide (JNum (Fin 6)) = (0, low)"
proof (intro conjI allI impI)
  show "calculateLateralFromLine T (Some cs) tapDistance clock
           = turf_along T ls (Math_min (num_div (toNumber tapDistance) (Fin 1000)) lineLength)"
    using assms
    by (auto simp: calculateLateralFromLine_def bind_err_def Let_def split: sum.splits)
next
  fix cp b
  assume h: "turf_along T ls (Math_min (num_div (toNumber tapDistance) (Fin 1000)) lineLength) = Inr cp
              \<and> lineBearingAt T ls lineLength (Math_min (num_div (toNumber tapDistance) (Fin 1000)) lineLength)
                   = Inr (Some b)"
  let ?nb = "whileTooBig (whileNegative (b + 90))"
  have "calculateStubFromLine T (Some cs) tapDistance clock stubLength
          = bind_err (turf_destination T cp stubLength (Fin ?nb))
              (\<lambda>stubEnd. Inr \<lparr>connectionPoint = cp, stubLine = (cp, stubEnd)\<rparr>)"
    using assms h
    by (simp add: calculateStubFromLine_def bind_err_def normalizeBearing_def)
  with normalized_bearing [of "b + 90"]
  show "\<exists>nb. 0 \<le> nb \<and> nb < 360 \<and> (\<exists>k::int. nb = b + 90 + 360 * of_int k)
                   \<and> calculateStubFromLine T (Some cs) tapDistance clock stubLength
                       = bind_err (turf_destination T cp stubLength (Fin nb))
                           (\<lambda>stubEnd. Inr \<lparr>connectionPoint = cp, stubLine = (cp, stubEnd)\<rparr>)"
    by blast
next
  show "clockToSide (JNum (Fin 12)) = (0, low)"
    by (simp add: clockToSide_def nullish_def trunc_def num_gt_def)
  show "clockToSide (JNum (Fin 6)) = (0, low)"
    by (simp add: clockToSide_def nullish_def trunc_def num_gt_def)
qed

theorem ambiguous_side_on_line_and_stub_at_right_angle_witness:
  "fst (clockToSide (JNum (Fin 12))) = 0
   \<and> calculateLateralFromLine flatTurf
        (Some [[JNum (Fin 0), JNum (Fin 0)], [JNum (Fin 1), JNum (Fin 0)]]) (JNum (Fin 500)) (JNum (Fin 12))
       = Inr [JNum (Fin (1 / 2)), JNum (Fin 0)]
   \<and> calculateStubFromLine flatTurf
        (Some [[JNum (Fin 0), JNum (Fin 0)], [JNum (Fin 1), JNum (Fin 0)]]) (JNum (Fin 500)) (JNum (Fin 12))
        defaultStubLength
       = Inr \<lparr>connectionPoint = [JNum (Fin (1 / 2)), JNum (Fin 0)],
              stubLine = ([JNum (Fin (1 / 2)), JNum (Fin 0)],
                          [JNum (Fin (1 / 2)), JNum (Fin 0), defaultStubLength, JNum (Fin 180)])\<rparr>"
proof -
  let ?cs = "[[JNum (Fin 0), JNum (Fin 0)], [JNum (Fin 1), JNum (Fin 0)]]"
  let ?cp = "[JNum (Fin (1 / 2)), JNum (Fin 0)]"
  have l: "turf_lineString flatTurf (Some ?cs) = Inr ?cs"
    by (simp add: flat_defs)
  have n: "turf_length flatTurf ?cs = Inr (Fin 1)"
    by (simp add: flat_defs num_sub_def)
  have s: "fst (clockToSide (JNum (Fin 12))) = 0"
    by (simp add: clockToSide_def nullish_def trunc_def num_gt_def)
  have m: "Math_min (num_div (toNumber (JNum (Fin 500))) (Fin 1000)) (Fin 1) = Fin (1 / 2)"
    by (simp add: Math_min_def)
  have a: "turf_along flatTurf ?cs (Fin (1 / 2)) = Inr ?cp"
    by (simp add: flat_defs)
  have b: "lineBearingAt flatTurf ?cs (Fin 1) (Fin (1 / 2)) = Inr (Some 90)"
    by (simp add: lineBearingAt_def bind_err_def flat_defs)
  from ambiguous_side_on_line_and_stub_at_right_angle [OF l n s, of "JNum (Fin 500)" defaultStubLength]
  have plain: "calculateLateralFromLine flatTurf (Some ?cs) (JNum (Fin 500)) (JNum (Fin 12)) = Inr ?cp"
    and stub: "\<exists>nb. 0 \<le> nb \<and> nb < 360 \<and> (\<exists>k::int. nb = 90 + 90 + 360 * of_int k)
                \<and> calculateStubFromLine flatTurf (Some ?cs) (JNum (Fin 500)) (JNum (Fin 12)) defaultStubLength
                    = bind_err (turf_destination flatTurf ?cp defaultStubLength (Fin nb))
                        (\<lambda>stubEnd. Inr \<lparr>connectionPoint = ?cp, stubLine = (?cp, stubEnd)\<rparr>)"
    using m a b by auto
  from stub obtain nb :: real and k :: int where nb: "0 \<le> nb" "nb < 360" "nb = 180 + 360 * of_int k"
    and eq: "calculateStubFromLine flatTurf (Some ?cs) (JNum (Fin 500)) (JNum (Fin 12)) defaultStubLength
               = bind_err (turf_destination flatTurf ?cp defaultStubLength (Fin nb))
                   (\<lambda>stubEnd. Inr \<lparr>connectionPoint = ?cp, stubLine = (?cp, stubEnd)\<rparr>)"
    by auto
  from nb have "k = 0"
    by (cases "k \<le> - 1"; cases "1 \<le> k") (auto simp: algebra_simps dest: of_int_le_iff [THEN iffD2])
  with nb have "nb = 180" by simp
  with eq plain s show ?thesis
    by (simp add: bind_err_def flat_defs)
qed

section \<open>Properties of the matching\<close>

lemma fileInspection_at:
  "fileInspection maps acc i k =
     (if matchedKeyOf maps i = Some k
      then Some ((case acc k of None \<Rightarrow> [] | Some ys \<Rightarrow> ys) @ [i])
      else acc k)"
  by (auto simp: fileInspection_def split: option.splits)


lemma digit_not_space: "isDigit c \<Longrightarrow> \<not> isSpace c"
  by (auto simp: isDigit_def isSpace_def)

lemma dropWhile_unchanged: "xs \<noteq> [] \<Longrightarrow> \<not> P (hd xs) \<Longrightarrow> dropWhile P xs = xs"
  by (cases xs) simp_all

lemma trim_digits:
  assumes "allDigits s"
  shows "trim s = s"
proof -
  from assms have ne: "s \<noteq> []" and all: "\<forall>c\<in>set s. isDigit c"
    by (auto simp: allDigits_def list_all_iff)
  then have "\<not> isSpace (hd s)" "\<not> isSpace (last s)"
    by (auto simp: digit_not_space)
  with ne have "\<not> isSpace (hd s)" "\<not> isSpace (hd (rev s))"
    by (simp_all add: hd_rev)
  with ne have "dropWhile isSpace s = s" "dropWhile isSpace (rev s) = rev s"
    by (simp_all add: dropWhile_unchanged)
  then show ?thesis by (simp add: trim_def)
qed

lemma strToNumber_digits:
  assumes "allDigits s"
  shows "strToNumber s = Fin (of_nat (parseDigits 10 s))"
proof -
  from assms have ne: "s \<noteq> []" and all: "\<forall>c\<in>set s. isDigit c"
    by (auto simp: allDigits_def list_all_iff)
  have tw: "takeWhile isDigit s = s" and dw: "dropWhile isDigit s = []"
    using all by (simp_all add: takeWhile_eq_all_conv)
  have dec: "decimalLiteral s = Some (of_nat (parseDigits 10 s))"
    using ne by (simp add: decimalLiteral_def tw dw exponentPart_def scale_def)
  have hd: "isDigit (hd s)" using ne all by simp
  then have sign: "hd s \<noteq> CHR ''-''" "hd s \<noteq> CHR ''+''"
    by (auto simp: isDigit_def)
  have inf: "s \<noteq> ''Infinity''"
  proof
    assume "s = ''Infinity''"
    with hd have "isDigit (CHR ''I'')" by simp
    then show False by (simp add: isDigit_def)
  qed
  have pre: "\<not> startsWith s [CHR ''0'', c]" if "\<not> isDigit c" for c
  proof
    assume "startsWith s [CHR ''0'', c]"
    then have "take (Suc (Suc 0)) s = [CHR ''0'', c]" by (simp add: startsWith_def)
    then have "c \<in> set (take (Suc (Suc 0)) s)" by simp
    then have "c \<in> set s" by (rule in_set_takeD)
    with all that show False by simp
  qed
  have nx: "\<not> startsWith s ''0x''" "\<not> startsWith s ''0X''"
    using pre [of "CHR ''x''"] pre [of "CHR ''X''"] by (simp_all add: isDigit_def)
  have no: "\<not> startsWith s ''0o''" "\<not> startsWith s ''0O''"
    using pre [of "CHR ''o''"] pre [of "CHR ''O''"] by (simp_all add: isDigit_def)
  have nb: "\<not> startsWith s ''0b''" "\<not> startsWith s ''0B''"
    using pre [of "CHR ''b''"] pre [of "CHR ''B''"] by (simp_all add: isDigit_def)
  have t: "trim s = s"
    by (rule trim_digits [OF assms])
  show ?thesis
    unfolding strToNumber_def t Let_def
    by (simp only: ne nx no nb sign inf dec if_False simp_thms option.case)
qed

lemma strToNumber_trimmed_digits:
  assumes "allDigits (trim s)"
  shows "strToNumber s = Fin (of_nat (parseDigits 10 (trim s)))"
proof -
  have "strToNumber s = strToNumber (trim s)"
    by (simp add: strToNumber_def trim_digits [OF assms])
  with strToNumber_digits [OF assms] show ?thesis by simp
qed

text \<open>What the loop body registers for an asset with a FID.\<close>

lemma registerAsset_single:
  assumes "assetFid a = JStr f" and "trim f \<noteq> []"
  shows "fst (buildLookupMaps [a]) (trim f) = Some (JStr (trim f))"
    and "fst (buildLookupMaps [a]) (toLowerCase (trim f)) = Some (JStr (trim f))"
    and "\<not> isNaN (strToNumber f)
         \<Longrightarrow> fst (buildLookupMaps [a]) (numToString (strToNumber f)) = Some (JStr (trim f))"
    and "fst (buildLookupMaps [a]) s = None \<or> fst (buildLookupMaps [a]) s = Some (JStr (trim f))"
proof -
  from assms have f: "f \<noteq> []" by (auto simp: trim_def)
  show "fst (buildLookupMaps [a]) (trim f) = Some (JStr (trim f))"
    and "fst (buildLookupMaps [a]) (toLowerCase (trim f)) = Some (JStr (trim f))"
    and "\<not> isNaN (strToNumber f)
         \<Longrightarrow> fst (buildLookupMaps [a]) (numToString (strToNumber f)) = Some (JStr (trim f))"
    and "fst (buildLookupMaps [a]) s = None \<or> fst (buildLookupMaps [a]) s = Some (JStr (trim f))"
    using assms(1) f
    by (simp_all add: buildLookupMaps_def registerAsset_def assetKeyOf_def Let_def)
qed

lemma matchByReference_hit:
  assumes vals: "\<And>s. lookup pm s = JUndefined \<or> lookup pm s = K"
    and K: "truthy K"
    and hit: "lookup pm (toLowerCase refStr) = K
              \<or> (\<not> isNaN (strToNumber refStr) \<and> lookup pm (numToString (strToNumber refStr)) = K)"
  shows "matchByReference pm refStr = K"
proof -
  define k1 where "k1 = lookup pm refStr"
  define k2 where "k2 = (if \<not> truthy k1 then lookup pm (toLowerCase refStr) else k1)"
  define k3 where "k3 = (if \<not> truthy k2 then
                  (let refNum = strToNumber refStr
                   in if \<not> isNaN refNum
                      then or_else (lookup pm (numToString refNum))
                             (lookup pm (toLowerCase (numToString refNum)))
                      else k2)
                else k2)"
  define k4 where "k4 = (if \<not> truthy k3 \<and> allDigits refStr then
                  (let normalizedRef = numToString (Fin (of_nat (parseDigits 10 refStr)))
                   in or_else (lookup pm normalizedRef)
                        (lookup pm (toLowerCase normalizedRef)))
                else k3)"
  have res: "matchByReference pm refStr = k4"
    by (simp add: matchByReference_def k1_def k2_def k3_def k4_def Let_def)
  have undef: "\<not> truthy JUndefined" by simp
  have k1: "k1 = JUndefined \<or> k1 = K"
    unfolding k1_def by (rule vals)
  have k2: "k2 = JUndefined \<or> k2 = K"
    unfolding k2_def using k1 vals [of "toLowerCase refStr"] by (cases "truthy k1") simp_all
  have k3: "k3 = K"
  proof (cases "truthy k2")
    case True
    with k2 undef have "k2 = K" by metis
    with True show ?thesis by (simp add: k3_def)
  next
    case False
    with k2 K have k2u: "k2 = JUndefined" by metis
    have nolow: "lookup pm (toLowerCase refStr) \<noteq> K"
    proof
      assume h: "lookup pm (toLowerCase refStr) = K"
      show False
      proof (cases "truthy k1")
        case True
        with k2_def have "k2 = k1" by simp
        with True False show False by simp
      next
        case f: False
        with k2_def h have "k2 = K" by simp
        with K False show False by simp
      qed
    qed
    with hit have nn: "\<not> isNaN (strToNumber refStr)"
      and h: "lookup pm (numToString (strToNumber refStr)) = K"
      by blast+
    from h K have "or_else (lookup pm (numToString (strToNumber refStr)))
                     (lookup pm (toLowerCase (numToString (strToNumber refStr)))) = K"
      by (simp add: or_else_def)
    with False nn show ?thesis by (simp add: k3_def Let_def)
  qed
  with K have "k4 = K" by (simp add: k4_def)
  with res show ?thesis by simp
qed

lemma matchByReference_single:
  assumes "assetFid a = JStr f" and "trim f \<noteq> []"
    and "toLowerCase refStr = toLowerCase (trim f)
         \<or> (allDigits refStr \<and> allDigits (trim f) \<and> parseDigits 10 refStr = parseDigits 10 (trim f))"
  shows "matchByReference (fst (buildLookupMaps [a])) refStr = JStr (trim f)"
proof (rule matchByReference_hit)
  show "truthy (JStr (trim f))" using assms(2) by simp
next
  fix s
  show "lookup (fst (buildLookupMaps [a])) s = JUndefined
        \<or> lookup (fst (buildLookupMaps [a])) s = JStr (trim f)"
    using registerAsset_single(4) [OF assms(1,2), of s] by (auto simp: lookup_def)
next
  from assms(3)
  show "lookup (fst (buildLookupMaps [a])) (toLowerCase refStr) = JStr (trim f)
        \<or> (\<not> isNaN (strToNumber refStr)
            \<and> lookup (fst (buildLookupMaps [a])) (numToString (strToNumber refStr)) = JStr (trim f))"
  proof
    assume "toLowerCase refStr = toLowerCase (trim f)"
    then show ?thesis
      using registerAsset_single(2) [OF assms(1,2)] by (simp add: lookup_def)
  next
    assume d: "allDigits refStr \<and> allDigits (trim f) \<and> parseDigits 10 refStr = parseDigits 10 (trim f)"
    then have num: "strToNumber f = strToNumber refStr"
      and rnum: "\<not> isNaN (strToNumber refStr)"
      using strToNumber_trimmed_digits [of f] strToNumber_digits [of refStr] by simp_all
    then show ?thesis
      using registerAsset_single(3) [OF assms(1,2)] by (simp add: lookup_def)
  qed
qed


lemma trim_nonempty: "trim r \<noteq> [] \<Longrightarrow> r \<noteq> []"
  by (auto simp: trim_def)

lemma toLowerCase_empty: "toLowerCase s = [] \<longleftrightarrow> s = []"
  by (simp add: toLowerCase_def)

lemma matchInspectionsToAssets_single:
  assumes fid: "assetFid a = JStr f" and ne: "trim f \<noteq> []"
    and ref: "i_pipeSegmentReference j = JStr r"
    and same: "toLowerCase (trim r) = toLowerCase (trim f)
             \<or> (allDigits (trim r) \<and> allDigits (trim f)
                  \<and> parseDigits 10 (trim r) = parseDigits 10 (trim f))"
  shows "matchInspectionsToAssets [j] [a] (JStr (trim f)) = Some [j]"
proof -
  have "trim r \<noteq> []"
  proof
    assume e: "trim r = []"
    with same have "toLowerCase (trim f) = []"
      by (auto simp: allDigits_def toLowerCase_def)
    with ne show False by (simp add: toLowerCase_empty)
  qed
  then have r: "r \<noteq> []" by (rule trim_nonempty)
  have "matchByReference (fst (buildLookupMaps [a])) (trim r) = JStr (trim f)"
    using same by (intro matchByReference_single [OF fid ne]) simp
  with ref r ne have "matchedKeyOf (buildLookupMaps [a]) j = Some (JStr (trim f))"
    by (cases "buildLookupMaps [a]") (simp add: matchedKeyOf_def)
  then show ?thesis
    by (simp add: matchInspectionsToAssets_def fileInspection_at)
qed

lemmas match_eval = buildLookupMaps_def registerAsset_def assetKeyOf_def assetFid_def assetIdOf_def
  matchedKeyOf_def matchByReference_def lookup_def or_else_def getProp_def allDigits_def
  assetWithFid_def inspectionWith_def exampleLine_def



section \<open>Properties of the request handler\<close>









text \<open>A run on one asset with FID 7 and one inspection that refers to it as 007.\<close>

lemma example_match:
  assumes "i_pipeSegmentReference i = JStr ''007''"
  shows "matchInspectionsToAssets [i] [assetWithFid (JStr ''7'')] (JStr ''7'') = Some [i]"
proof -
  have fid: "assetFid (assetWithFid (JStr ''7'')) = JStr ''7''"
    by (simp add: assetFid_def assetWithFid_def getProp_def or_else_def)
  have t: "trim ''7'' = ''7''" "trim ''007'' = ''007''"
    by (simp_all add: trim_def isSpace_def)
  have d: "allDigits ''7''" "allDigits ''007''" "parseDigits 10 ''007'' = parseDigits 10 ''7''"
    by (simp_all add: allDigits_def isDigit_def parseDigits_def digitVal_def)
  from matchInspectionsToAssets_single [OF fid _ assms] t d show ?thesis
    by simp
qed

lemma example_key: "trim (toStr (assetKeyOf (assetWithFid (JStr ''7'')) 0)) = ''7''"
  by (simp add: match_eval str_defs)

lemma example_run:
  assumes "i_pipeSegmentReference i = JStr ''007''"
  shows "processAssets T g [assetWithFid (JStr ''7'')] [i]
           = processInspection T g (assetWithFid (JStr ''7'')) ''7''
               \<lparr>laterals = [], processedCount = 0, skippedCount = 0\<rparr> i"
  by (simp add: processAssets_def processAsset_def Let_def example_match [OF assms] example_key)




text \<open>
  Claim C2. The loop body is meant to attempt a lateral whenever the tap distance is not
  null and the clock position is defined. The test \<open>!inspection.tapDistance\<close> also
  holds for the number 0: an inspection with tap distance 0 and clock position 3 is
  counted as skipped and no lateral is attempted, whatever the asset. The batch goes on:
  the run on the asset with FID 7 ends with no lateral and one skipped inspection.
\<close>

theorem zero_tap_distance_is_skipped:
  "processInspection T g asset key st (i\<lparr>i_tapDistance := JNum (Fin 0), i_clockPosition := JNum (Fin 3)\<rparr>)
     = st\<lparr>skippedCount := skippedCount st + 1\<rparr>
   \<and> processAssets T g [assetWithFid (JStr ''7'')]
         [inspectionWith (JStr ''007'') (JNum (Fin 0)) (JNum (Fin 3))]
     = \<lparr>laterals = [], processedCount = 0, skippedCount = 1\<rparr>"
proof
  show "processInspection T g asset key st (i\<lparr>i_tapDistance := JNum (Fin 0), i_clockPosition := JNum (Fin 3)\<rparr>)
     = st\<lparr>skippedCount := skippedCount st + 1\<rparr>"
    by (simp add: processInspection_def)
  have "i_pipeSegmentReference (inspectionWith (JStr ''007'') (JNum (Fin 0)) (JNum (Fin 3))) = JStr ''007''"
    by (simp add: inspectionWith_def)
  then show "processAssets T g [assetWithFid (JStr ''7'')]
         [inspectionWith (JStr ''007'') (JNum (Fin 0)) (JNum (Fin 3))]
     = \<lparr>laterals = [], processedCount = 0, skippedCount = 1\<rparr>"
    by (simp add: example_run processInspection_def inspectionWith_def)
qed

theorem zero_tap_distance_is_skipped_witness:
  "processInspection flatTurf stalledGeocoder (assetWithFid (JStr ''7'')) ''7''
       \<lparr>laterals = [], processedCount = 0, skippedCount = 0\<rparr>
       (inspectionWith (JStr ''007'') (JNum (Fin 0)) (JNum (Fin 3)))
     = \<lparr>laterals = [], processedCount = 0, skippedCount = 1\<rparr>
   \<and> processAssets flatTurf stalledGeocoder [assetWithFid (JStr ''7'')]
         [inspectionWith (JStr ''007'') (JNum (Fin 0)) (JNum (Fin 3))]
     = \<lparr>laterals = [], processedCount = 0, skippedCount = 1\<rparr>"
  using zero_tap_distance_is_skipped
    [of flatTurf stalledGeocoder "assetWithFid (JStr ''7'')" "''7''"
        "\<lparr>laterals = [], processedCount = 0, skippedCount = 0\<rparr>"
        "inspectionWith (JStr ''007'') (JNum (Fin 0)) (JNum (Fin 3))"]
  by (simp add: inspectionWith_def)



section \<open>Properties of the taps\<close>

lemma lower_upper: "toLowerChar (toUpperChar c) = toLowerChar c"
  by (simp add: toLowerChar_def toUpperChar_def)

lemma upper_lower: "toUpperChar (toLowerChar c) = toUpperChar c"
  by (simp add: toLowerChar_def toUpperChar_def)

lemma toLowerCase_toUpperCase: "toLowerCase (toUpperCase x) = toLowerCase x"
  by (induction x) (simp_all add: toLowerCase_def toUpperCase_def lower_upper)

lemma toUpperCase_toLowerCase: "toUpperCase (toLowerCase x) = toUpperCase x"
  by (induction x) (simp_all add: toLowerCase_def toUpperCase_def upper_lower)

lemma same_up_to_case: "toUpperCase x = toUpperCase y \<longleftrightarrow> toLowerCase x = toLowerCase y"
proof
  assume "toUpperCase x = toUpperCase y"
  then have "toLowerCase (toUpperCase x) = toLowerCase (toUpperCase y)" by simp
  then show "toLowerCase x = toLowerCase y"
    by (simp only: toLowerCase_toUpperCase)
next
  assume "toLowerCase x = toLowerCase y"
  then have "toUpperCase (toLowerCase x) = toUpperCase (toLowerCase y)" by simp
  then show "toUpperCase x = toUpperCase y"
    by (simp only: toUpperCase_toLowerCase)
qed

lemma startsWith_upper:
  assumes "toUpperCase p = p"
  shows "startsWith (toUpperCase t) p
           \<longleftrightarrow> (\<exists>start rest. t = start @ rest \<and> toLowerCase start = toLowerCase p)"
proof
  assume "startsWith (toUpperCase t) p"
  then have "toUpperCase (take (length p) t) = toUpperCase p"
    using assms by (simp add: startsWith_def toUpperCase_def take_map)
  then have "toLowerCase (take (length p) t) = toLowerCase p"
    by (simp add: same_up_to_case)
  moreover have "t = take (length p) t @ drop (length p) t" by simp
  ultimately show "\<exists>start rest. t = start @ rest \<and> toLowerCase start = toLowerCase p"
    by blast
next
  assume "\<exists>start rest. t = start @ rest \<and> toLowerCase start = toLowerCase p"
  then obtain start rest where t: "t = start @ rest" and l: "toLowerCase start = toLowerCase p"
    by blast
  from l have len: "length start = length p"
    by (metis length_map toLowerCase_def)
  from l have "toUpperCase start = p"
    using assms by (simp add: same_up_to_case [symmetric])
  with t len show "startsWith (toUpperCase t) p"
    by (simp add: startsWith_def toUpperCase_def)
qed

lemma isTapCode_string:
  "isTapCode (JStr s) =
     Inr (\<exists>p\<in>{''TB'', ''TF'', ''TS''}. \<exists>start rest.
            trim s = start @ rest \<and> toLowerCase start = toLowerCase p)"
proof -
  have up: "toUpperCase ''TB'' = ''TB''" "toUpperCase ''TF'' = ''TF''" "toUpperCase ''TS'' = ''TS''"
    by (simp_all add: toUpperCase_def toUpperChar_def)
  show ?thesis
    by (simp add: isTapCode_def coalesce_def nullish_def Let_def
          startsWith_upper [OF up(1)] startsWith_upper [OF up(2)] startsWith_upper [OF up(3)])
qed

lemma isTapCode_absent:
  assumes "nullish code"
  shows "isTapCode code = Inr False"
  using assms
  by (simp add: isTapCode_def coalesce_def trim_def toUpperCase_def startsWith_def)

lemma tapBySpec_empty: "\<not> tapBySpec [] distance"
  by (simp add: tapBySpec_def trim_def toLowerCase_def)

lemmas tap_eval = isTapDefect_def isTapCode_def defectCodeOf_def defectWith_def coalesce_def
  nullish_def getProp_def bind_err_def

text \<open>
  Claim C7. For a defect whose code (the first of \<open>defectCode\<close>, \<open>PACP_Code\<close> and
  \<open>Code\<close> that is not null) is a string or absent, and whose distance is a number or
  absent, the filter of step 1 returns exactly the classification of the specification:
  the trimmed code starts with TB, TF or TS up to case, and the distance is a number
  other than NaN. The code TF1 with distance 12 is a tap; the code TF without distance
  is not.
\<close>

theorem tap_classification:
  "((defectCodeOf d = JStr s \<or> (nullish (defectCodeOf d) \<and> s = []))
      \<and> (nullish (d_distance d) \<or> (\<exists>x. d_distance d = JNum x))
     \<longrightarrow> isTapDefect d = Inr (tapBySpec s (d_distance d)))
   \<and> isTapDefect (defectWith (JStr ''TF1'') (JNum (Fin 12))) = Inr True
   \<and> isTapDefect (defectWith (JStr ''TF'') JUndefined) = Inr False"
proof (intro conjI impI)
  assume h: "(defectCodeOf d = JStr s \<or> (nullish (defectCodeOf d) \<and> s = []))
      \<and> (nullish (d_distance d) \<or> (\<exists>x. d_distance d = JNum x))"
  have dist: "(\<not> nullish (d_distance d) \<and> \<not> isNaN (toNumber (d_distance d)))
                \<longleftrightarrow> (\<exists>x. d_distance d = JNum x \<and> \<not> isNaN x)"
    using h by (auto simp: nullish_def)
  from h have code: "defectCodeOf d = JStr s \<or> (nullish (defectCodeOf d) \<and> s = [])"
    by simp
  then show "isTapDefect d = Inr (tapBySpec s (d_distance d))"
  proof
    assume "defectCodeOf d = JStr s"
    then show ?thesis
      by (simp add: isTapDefect_def isTapCode_string bind_err_def dist tapBySpec_def)
  next
    assume "nullish (defectCodeOf d) \<and> s = []"
    then show ?thesis
      by (simp add: isTapDefect_def isTapCode_absent bind_err_def tapBySpec_empty)
  qed
next
  show "isTapDefect (defectWith (JStr ''TF1'') (JNum (Fin 12))) = Inr True"
    by (simp add: tap_eval str_defs)
  show "isTapDefect (defectWith (JStr ''TF'') JUndefined) = Inr False"
    by (simp add: tap_eval str_defs)
qed

theorem tap_classification_witness:
  "isTapDefect (defectWith (JStr '' tf1 '') (JNum (Fin 12))) = Inr True
   \<and> tapBySpec '' tf1 '' (JNum (Fin 12))
   \<and> \<not> tapBySpec ''TF'' JUndefined"
proof -
  have c: "defectCodeOf (defectWith (JStr s) v) = JStr s" "d_distance (defectWith (JStr s) v) = v" for s v
    by (simp_all add: defectCodeOf_def defectWith_def coalesce_def nullish_def)
  have e: "isTapDefect (defectWith (JStr '' tf1 '') (JNum (Fin 12))) = Inr True"
    by (simp add: tap_eval str_defs)
  from tap_classification [of "defectWith (JStr '' tf1 '') (JNum (Fin 12))" "'' tf1 ''"] c e
  have one: "tapBySpec '' tf1 '' (JNum (Fin 12))" by simp
  from tap_classification [of "defectWith (JStr ''TF'') JUndefined" "''TF''"] c
  have two: "\<not> tapBySpec ''TF'' JUndefined" by (auto simp: nullish_def)
  from e one two show ?thesis by (intro conjI)
qed






end
